theory Spec2Isabelle
  imports Complex_Main
begin

section \<open>JavaScript values used by the matcher\<close>

text \<open>
  A JavaScript number is an IEEE double. It is modelled by the real it denotes, plus
  the three special values; \<open>-0\<close> and \<open>+0\<close> are one value, which no comparison made
  by the code can tell apart. Wherever ECMAScript rounds a mathematical value to a
  double, the model applies the rounding function \<open>round_to_double\<close> of the host
  environment, which is a parameter: nothing below depends on how it rounds.
\<close>

datatype number = NaN | Num real | PosInfinity | NegInfinity

text \<open>The relational operator \<open>a > b\<close> on two numbers: false as soon as one is NaN.\<close>

fun num_gt :: "number \<Rightarrow> number \<Rightarrow> bool" where
  "num_gt NaN b = False"
| "num_gt a NaN = False"
| "num_gt (Num x) (Num y) = (y < x)"
| "num_gt (Num x) PosInfinity = False"
| "num_gt (Num x) NegInfinity = True"
| "num_gt PosInfinity PosInfinity = False"
| "num_gt PosInfinity b = True"
| "num_gt NegInfinity b = False"

text \<open>\<open>ToBoolean\<close> of a number: \<open>0\<close> and NaN are falsy.\<close>

fun num_truthy :: "number \<Rightarrow> bool" where
  "num_truthy NaN = False"
| "num_truthy (Num x) = (x \<noteq> 0)"
| "num_truthy PosInfinity = True"
| "num_truthy NegInfinity = True"

text \<open>\<open>ToNumber\<close> of a value that is a number or \<open>undefined\<close> (\<open>None\<close>).\<close>

fun ToNumber :: "number option \<Rightarrow> number" where
  "ToNumber None = NaN"
| "ToNumber (Some n) = n"

text \<open>
  Strings are lists of code units; \<open>char\<close> has 256 values, so the model covers the
  code units below 256. The white space that \<open>trim\<close>, \<open>parseInt\<close> and
  \<open>parseFloat\<close> strip is, in that range: TAB, LF, VT, FF, CR, SP and NBSP.
\<close>

definition isWhiteSpace :: "char \<Rightarrow> bool" where
  "isWhiteSpace c = (of_char c \<in> set [9, 10, 11, 12, 13, 32, 160 :: nat])"

definition trimStart :: "string \<Rightarrow> string" where
  "trimStart s = dropWhile isWhiteSpace s"

definition trim :: "string \<Rightarrow> string" where
  "trim s = rev (dropWhile isWhiteSpace (rev (dropWhile isWhiteSpace s)))"

text \<open>\<open>s.split(sep)\<close> for a one-character separator.\<close>

fun split :: "char \<Rightarrow> string \<Rightarrow> string list" where
  "split sep [] = [[]]"
| "split sep (c # cs) =
     (if c = sep then [] # split sep cs
      else (case split sep cs of
              [] \<Rightarrow> [[c]]
            | x # xs \<Rightarrow> (c # x) # xs))"

text \<open>\<open>xs.join(sep)\<close> on an array of strings in which \<open>null\<close> and \<open>undefined\<close>
  elements (\<open>None\<close>) count as the empty string.\<close>

fun join :: "string \<Rightarrow> string option list \<Rightarrow> string" where
  "join sep [] = []"
| "join sep [x] = (case x of None \<Rightarrow> [] | Some s \<Rightarrow> s)"
| "join sep (x # y # ys) = (case x of None \<Rightarrow> [] | Some s \<Rightarrow> s) @ sep @ join sep (y # ys)"

text \<open>The value of a character as a digit (\<open>0-9\<close>, \<open>a-z\<close>, \<open>A-Z\<close>), if it is one.\<close>

definition digit_value :: "char \<Rightarrow> nat option" where
  "digit_value c =
     (let n = (of_char c :: nat) in
      if 48 \<le> n \<and> n \<le> 57 then Some (n - 48)
      else if 97 \<le> n \<and> n \<le> 122 then Some (n - 87)
      else if 65 \<le> n \<and> n \<le> 90 then Some (n - 55)
      else None)"

definition is_digit :: "nat \<Rightarrow> char \<Rightarrow> bool" where
  "is_digit radix c = (case digit_value c of None \<Rightarrow> False | Some d \<Rightarrow> d < radix)"

definition digits_value :: "nat \<Rightarrow> string \<Rightarrow> nat" where
  "digits_value radix ds = foldl (\<lambda>acc c. acc * radix + the (digit_value c)) 0 ds"

text \<open>An optional leading sign: whether it is a minus, and the rest of the string.\<close>

fun strip_sign :: "string \<Rightarrow> bool \<times> string" where
  "strip_sign [] = (False, [])"
| "strip_sign (c # cs) =
     (if c = CHR ''-'' then (True, cs)
      else if c = CHR ''+'' then (False, cs)
      else (False, c # cs))"

text \<open>
  \<open>parseInt(s)\<close> with no radix argument: strip leading white space and a sign, take
  radix 16 after a \<open>0x\<close> or \<open>0X\<close> prefix and radix 10 otherwise, read the longest
  prefix of digits; NaN when there is none.
\<close>

definition parseInt :: "(real \<Rightarrow> number) \<Rightarrow> string \<Rightarrow> number" where
  "parseInt rnd s =
     (let (neg, s1) = strip_sign (trimStart s);
          (radix, s2) =
            (if take 2 s1 = ''0x'' \<or> take 2 s1 = ''0X'' then (16, drop 2 s1) else (10, s1));
          z = takeWhile (is_digit radix) s2
      in if z = [] then NaN
         else rnd ((if neg then - 1 else 1) * real (digits_value radix z)))"

text \<open>
  \<open>parseFloat(s)\<close>: strip leading white space, then read the longest prefix that is a
  decimal literal: a sign, then \<open>Infinity\<close> or digits with an optional fraction and
  an optional exponent (an \<open>e\<close> that no digit follows is not part of the literal);
  NaN when there is none.
\<close>

definition parseFloat :: "(real \<Rightarrow> number) \<Rightarrow> string \<Rightarrow> number" where
  "parseFloat rnd s =
     (let (neg, s1) = strip_sign (trimStart s) in
      if take 8 s1 = ''Infinity'' then (if neg then NegInfinity else PosInfinity)
      else
        let ip = takeWhile (is_digit 10) s1;
            r1 = dropWhile (is_digit 10) s1;
            (fp, r2) =
              (if take 1 r1 = ''.''
               then (takeWhile (is_digit 10) (drop 1 r1), dropWhile (is_digit 10) (drop 1 r1))
               else ([], r1))
        in if ip = [] \<and> fp = [] then NaN
           else
             let ex =
                   (if take 1 r2 = ''e'' \<or> take 1 r2 = ''E''
                    then (let (eneg, r3) = strip_sign (drop 1 r2);
                              ed = takeWhile (is_digit 10) r3
                          in if ed = [] then 0
                             else (if eneg then - 1 else 1) * int (digits_value 10 ed))
                    else 0);
                 sh = ex - int (length fp);
                 m = real (digits_value 10 (ip @ fp));
                 v = (if 0 \<le> sh then m * 10 ^ nat sh else m / 10 ^ nat (- sh))
             in rnd ((if neg then - 1 else 1) * v))"

text \<open>
  \<open>x / y\<close> for a finite non-zero divisor \<open>y\<close>, the only division the code makes
  (\<open>/ 100\<close>): NaN stays NaN, an infinity keeps or flips its sign, a finite quotient is
  rounded.
\<close>

fun num_div :: "(real \<Rightarrow> number) \<Rightarrow> number \<Rightarrow> real \<Rightarrow> number" where
  "num_div rnd NaN y = NaN"
| "num_div rnd (Num x) y = rnd (x / y)"
| "num_div rnd PosInfinity y = (if 0 < y then PosInfinity else NegInfinity)"
| "num_div rnd NegInfinity y = (if 0 < y then NegInfinity else PosInfinity)"

text \<open>\<open>x * y\<close> for a finite positive factor \<open>y\<close> (\<open>* 100\<close> in the messages).\<close>

fun num_mul :: "(real \<Rightarrow> number) \<Rightarrow> number \<Rightarrow> real \<Rightarrow> number" where
  "num_mul rnd NaN y = NaN"
| "num_mul rnd (Num x) y = rnd (x * y)"
| "num_mul rnd PosInfinity y = PosInfinity"
| "num_mul rnd NegInfinity y = NegInfinity"


section \<open>The host: file system, error channel, engine and missing modules\<close>

text \<open>
  An exception is a value: the error object with the two fields the adapter reads.
  \<open>e_status\<close> is \<open>None\<close> when the field is \<open>null\<close> or \<open>undefined\<close> (an error
  that is not an exit of the engine); \<open>e_output\<close> is the array
  \<open>[null, stdout, stderr]\<close> of a failed child process, \<open>None\<close> when absent.
\<close>

datatype js_error =
  JsError (e_message: string) (e_status: "number option") (e_output: "string option list option")

datatype 'a completion = Threw js_error | Returned 'a

datatype node = File string | Directory

type_synonym file_system = "string \<rightharpoonup> node"

datatype exec_result = ExecReturned string | ExecThrew js_error

text \<open>The snapshot state of the test framework: \<open>_updateSnapshot\<close>, \<open>_counters\<close>,
  \<open>added\<close> and \<open>updated\<close>. The counters count calls, so they are naturals (a double
  is exact on them below \<open>2^53\<close>).\<close>

record SnapshotState =
  updateSnapshot :: string
  counters :: "string \<rightharpoonup> nat"
  added :: nat
  updated :: nat

text \<open>What a call can change: the files, what was written to \<open>process.stderr\<close>
  (one entry per \<open>write\<close>), and the snapshot state shared by the calls of a run.\<close>

record world =
  files :: file_system
  stderr :: "string list"
  snapshotState :: SnapshotState

text \<open>
  Modelled from the spec: the \<open>this\<close> of a matcher call, of the type
  \<open>JestTestConfiguration\<close> of \<open>./jest\<close>, which is not among the sources, with the
  fields the matcher reads (section 6, the calling context). Its \<open>snapshotState\<close>
  is in the world.
\<close>

record jest_context =
  testPath :: string
  currentTestName :: string
  isNot :: bool

text \<open>The object serialised into \<open>info.json\<close>.\<close>

record report_info =
  info_testName :: string
  info_message :: string
  info_changedRelative :: "number option"
  info_changedPixels :: "number option"
  info_testFileName :: string
  info_snapshotNumber :: nat
  info_receivedPath :: string
  info_diffPath :: string
  info_snapshotPath :: string

text \<open>
  Everything the two source files call and do not define is a parameter, collected in
  one record: the built-ins of the language and of Node (rounding to a double, number
  formatting, \<open>path\<close>, \<open>os\<close>, \<open>require.resolve\<close>, \<open>JSON.stringify\<close>), the
  \<open>chalk\<close> colours, the engine behind \<open>execSync\<close> (its result, what the child
  printed on its standard error, and what it does to the files), the name
  \<open>mkdtempSync\<close> picks, and the modules \<open>./jest\<close> and \<open>./filenames\<close> of this
  repository.
\<close>

record env =
  round_to_double :: "real \<Rightarrow> number"
  Number_toString :: "number \<Rightarrow> string"
  toFixed :: "number \<Rightarrow> nat \<Rightarrow> string"
  JSON_stringify :: "report_info \<Rightarrow> string"
  chalk_red :: "string \<Rightarrow> string"
  chalk_green :: "string \<Rightarrow> string"
  require_resolve :: "string \<Rightarrow> js_error + string"
  path_resolve :: "string list \<Rightarrow> string"
  path_join :: "string \<Rightarrow> string \<Rightarrow> string"
  path_dirname :: "string \<Rightarrow> string"
  path_relative :: "string \<Rightarrow> string \<Rightarrow> string"
  path_parents :: "string \<Rightarrow> string list"
  os_EOL :: string
  os_tmpdir :: string
  process_cwd :: string
  execSync :: "string \<Rightarrow> file_system \<Rightarrow> exec_result \<times> string \<times> file_system"
  mkdtemp_name :: "string \<Rightarrow> file_system \<Rightarrow> string"
  isJestTestConfiguration :: "jest_context \<Rightarrow> bool"
  getSnapshotPath :: "string \<Rightarrow> string \<Rightarrow> SnapshotState \<Rightarrow> string \<Rightarrow> string"
  getReportPath :: "string \<Rightarrow> string \<Rightarrow> SnapshotState \<Rightarrow> string \<Rightarrow> string"
  getReportDir :: "string \<Rightarrow> string"

text \<open>
  The file operations. A write, a \<open>mkdirp\<close> and a \<open>mkdtempSync\<close> succeed (the
  failures of the host file system are outside the model); \<open>copyFileSync\<close> throws
  when its source is not a file, which a call decides by itself: the diff mask is
  there only if the engine wrote it.
\<close>

definition existsSync :: "string \<Rightarrow> world \<Rightarrow> bool" where
  "existsSync p w = (files w p \<noteq> None)"

definition writeFileSync :: "string \<Rightarrow> string \<Rightarrow> world \<Rightarrow> world" where
  "writeFileSync p d w = w\<lparr>files := (files w)(p \<mapsto> File d)\<rparr>"

fun make_directories :: "string list \<Rightarrow> file_system \<Rightarrow> file_system" where
  "make_directories [] fs = fs"
| "make_directories (p # ps) fs =
     make_directories ps (if fs p = None then fs(p \<mapsto> Directory) else fs)"

definition mkdirp :: "env \<Rightarrow> string \<Rightarrow> world \<Rightarrow> world" where
  "mkdirp env p w = w\<lparr>files := make_directories (p # path_parents env p) (files w)\<rparr>"

definition mkdtempSync :: "env \<Rightarrow> string \<Rightarrow> world \<Rightarrow> string \<times> world" where
  "mkdtempSync env prefix w =
     (let d = mkdtemp_name env prefix (files w)
      in (d, w\<lparr>files := (files w)(d \<mapsto> Directory)\<rparr>))"

definition copyFileSync :: "string \<Rightarrow> string \<Rightarrow> world \<Rightarrow> unit completion \<times> world" where
  "copyFileSync src dst w =
     (case files w src of
        Some (File d) \<Rightarrow> (Returned (), writeFileSync dst d w)
      | _ \<Rightarrow> (Threw (JsError (''ENOENT: no such file or directory, copyfile '' @ src) None None), w))"

definition stderr_write :: "string \<Rightarrow> world \<Rightarrow> world" where
  "stderr_write s w = w\<lparr>stderr := stderr w @ [s]\<rparr>"

text \<open>
  \<open>execSync(command, {encoding})\<close> as Node runs it: no \<open>stdio\<close> option is given,
  so what the child printed on its standard error is written to \<open>process.stderr\<close>,
  in one write and only when it is not empty, before \<open>execSync\<close> returns or throws.
\<close>

definition run_execSync :: "env \<Rightarrow> string \<Rightarrow> world \<Rightarrow> exec_result \<times> world" where
  "run_execSync env command w =
     (case execSync env command (files w) of
        (x, child_stderr, fs) \<Rightarrow>
          (x, if child_stderr = [] then w\<lparr>files := fs\<rparr>
              else stderr_write child_stderr (w\<lparr>files := fs\<rparr>)))"

section \<open>The comparator adapter (odiff-sync.ts)\<close>

datatype reason = LayoutDiff | PixelDiff

record OdiffReturnType =
  match :: bool
  reason :: "reason option"
  diffCount :: "number option"
  diffPercentage :: "number option"

text \<open>The options \<open>compare\<close> reads; a missing flag is \<open>False\<close>, a missing value
  \<open>None\<close>.\<close>

record odiff_options =
  antialiasing :: bool
  diffColor :: "string option"
  threshold :: "number option"
  outputDiffMask :: bool

definition compare_args :: "env \<Rightarrow> odiff_options \<Rightarrow> string list" where
  "compare_args env options =
     [''--parsable-stdout'']
     @ (if antialiasing options then [''--antialiasing''] else [])
     @ (case diffColor options of
          Some c \<Rightarrow> if c \<noteq> [] then [''--diff-color='' @ c] else []
        | None \<Rightarrow> [])
     @ (case threshold options of
          Some t \<Rightarrow> if num_truthy t then [''--threshold='' @ Number_toString env t] else []
        | None \<Rightarrow> [])
     @ (if outputDiffMask options then [''--diff-mask''] else [])"

text \<open>The command line of line 42, from the resolved path of the module.\<close>

definition compare_command ::
  "env \<Rightarrow> string \<Rightarrow> string \<Rightarrow> string \<Rightarrow> string \<Rightarrow> odiff_options \<Rightarrow> string" where
  "compare_command env odiffPath a b diff options =
     (let odiffBinPath = path_resolve env [odiffPath, ''..'', ''bin'', ''odiff''];
          args = compare_args env options
      in odiffBinPath @ '' '' @ a @ '' '' @ b @ '' '' @ diff @ '' ''
           @ join '' '' (map Some args))"

text \<open>The body of the \<open>try\<close>: lines 22 to 47.\<close>

definition compare_try ::
  "env \<Rightarrow> string \<Rightarrow> string \<Rightarrow> string \<Rightarrow> odiff_options \<Rightarrow> world
     \<Rightarrow> OdiffReturnType completion \<times> world" where
  "compare_try env a b diff options w =
     (case require_resolve env ''odiff-bin'' of
        Inl e \<Rightarrow> (Threw e, w)
      | Inr odiffPath \<Rightarrow>
          (case run_execSync env (compare_command env odiffPath a b diff options) w of
             (ExecThrew e, w1) \<Rightarrow> (Threw e, w1)
           | (ExecReturned out, w1) \<Rightarrow>
               (Returned \<lparr>match = True, reason = None,
                          diffCount = Some (Num 0), diffPercentage = Some (Num 0)\<rparr>,
                w1)))"

text \<open>\<open>if (e.status)\<close>: a status that is there, not \<open>0\<close> and not NaN.\<close>

definition status_truthy :: "js_error \<Rightarrow> bool" where
  "status_truthy e = (case e_status e of None \<Rightarrow> False | Some n \<Rightarrow> num_truthy n)"

text \<open>
  The \<open>catch\<close> block: lines 49 to 72. \<open>output_fields\<close> is the right-hand side
  of line 56, \<open>(e.output ?? []).join('').trim().split(';')\<close>; the destructuring
  \<open>[diffCount = '0', diffPercentage = '0']\<close> takes the default where the array has no
  element at the index.
\<close>

definition output_fields :: "js_error \<Rightarrow> string list" where
  "output_fields e =
     split CHR '';'' (trim (join [] (case e_output e of None \<Rightarrow> [] | Some out \<Rightarrow> out)))"

definition compare_catch :: "env \<Rightarrow> js_error \<Rightarrow> world \<Rightarrow> OdiffReturnType completion \<times> world" where
  "compare_catch env e w =
     (if status_truthy e \<and> e_status e = Some (Num 21) then
        (Returned \<lparr>match = False, reason = Some LayoutDiff,
                   diffCount = Some (Num 0), diffPercentage = Some (Num 0)\<rparr>, w)
      else if status_truthy e \<and> e_status e = Some (Num 22) then
        (let fields = output_fields e;
             diffCount = (case fields of [] \<Rightarrow> ''0'' | c # _ \<Rightarrow> c);
             diffPercentage = (case fields of c # p # _ \<Rightarrow> p | _ \<Rightarrow> ''0'')
         in (Returned \<lparr>match = False, reason = Some PixelDiff,
                       diffCount = Some (parseInt (round_to_double env) diffCount),
                       diffPercentage =
                         Some (num_div (round_to_double env)
                                 (parseFloat (round_to_double env) diffPercentage) 100)\<rparr>, w))
      else
        (let w1 = stderr_write
                    (''Error executing odiff image comparison in '' @ [CHR 0x22]
                      @ ''@craft.co/jest-screenshot-odiff'' @ [CHR 0x22]) w;
             w2 = (if status_truthy e
                   then stderr_write (''Exit code: '' @ Number_toString env (the (e_status e))) w1
                   else w1);
             w3 = (case e_output e of
                     Some out \<Rightarrow> stderr_write (join (os_EOL env) out) w2
                   | None \<Rightarrow> w2)
         in (Threw e, w3)))"

definition compare ::
  "env \<Rightarrow> string \<Rightarrow> string \<Rightarrow> string \<Rightarrow> odiff_options \<Rightarrow> world
     \<Rightarrow> OdiffReturnType completion \<times> world" where
  "compare env a b diff options w =
     (case compare_try env a b diff options w of
        (Returned r, w1) \<Rightarrow> (Returned r, w1)
      | (Threw e, w1) \<Rightarrow> compare_catch env e w1)"

section \<open>The verdict engine and the matcher\<close>

text \<open>
  Modelled from the spec: the type \<open>JestScreenshotConfiguration\<close> of \<open>./config\<close>,
  which is not among the sources. Its fields are the configuration surface of section
  6 of the specification, all of them optional but the two directories; \<open>None\<close> is
  a threshold that is not configured, \<open>False\<close> a flag that is not set.
\<close>

record JestScreenshotConfiguration =
  colorThreshold :: "number option"
  detectAntialiasing :: bool
  pixelThresholdAbsolute :: "number option"
  pixelThresholdRelative :: "number option"
  snapshotsDir :: string
  reportDir :: string
  noReport :: bool

text \<open>
  Modelled from the spec: the type \<open>MatcherResult\<close> of \<open>./jest\<close>, which is not
  among the sources: \<open>pass\<close> and the optional \<open>message\<close> (section 6, the produced
  result). \<open>message\<close> is a function without arguments in the source; it reads
  constants only, so the model holds the string it returns (\<open>None\<close> where the
  field is not set).
\<close>

record MatcherResult =
  pass :: bool
  message :: "string option"

record ImageMatcherResult = MatcherResult +
  changedRelative :: "number option"
  changedPixels :: "number option"

text \<open>A template literal prints a number, or \<open>undefined\<close>.\<close>

fun ToString :: "env \<Rightarrow> number option \<Rightarrow> string" where
  "ToString env None = ''undefined''"
| "ToString env (Some n) = Number_toString env n"

text \<open>The texts of lines 61 and 62 and of the three failures.\<close>

definition preamble :: "env \<Rightarrow> nat \<Rightarrow> string" where
  "preamble env snapshotNumber =
     (let expected = ''stored snapshot '' @ Number_toString env (Num (real snapshotNumber))
      in chalk_red env ''Received value'' @ '' does not match ''
           @ chalk_green env expected @ ''.'')"

definition absolute_message ::
  "env \<Rightarrow> nat \<Rightarrow> JestScreenshotConfiguration \<Rightarrow> OdiffReturnType \<Rightarrow> string" where
  "absolute_message env snapshotNumber configuration r =
     preamble env snapshotNumber @ [CHR 0x0A, CHR 0x0A]
     @ ''Expected less than ''
     @ chalk_green env (ToString env (pixelThresholdAbsolute configuration) @ '' pixels'')
     @ '' to have changed, '' @ ''but ''
     @ chalk_red env (ToString env (diffCount r) @ '' pixels'') @ '' changed.''"

definition relative_message ::
  "env \<Rightarrow> nat \<Rightarrow> JestScreenshotConfiguration \<Rightarrow> OdiffReturnType \<Rightarrow> string" where
  "relative_message env snapshotNumber configuration r =
     (let percentThreshold =
            toFixed env (num_mul (round_to_double env)
                           (ToNumber (pixelThresholdRelative configuration)) 100) 2;
          percentChanged =
            toFixed env (num_mul (round_to_double env) (ToNumber (diffPercentage r)) 100) 2
      in preamble env snapshotNumber @ [CHR 0x0A, CHR 0x0A]
         @ ''Expected less than '' @ chalk_green env (percentThreshold @ ''%'')
         @ '' of the pixels to have changed, '' @ ''but ''
         @ chalk_red env (percentChanged @ ''%'') @ '' of the pixels changed.'')"

definition layout_message :: "env \<Rightarrow> nat \<Rightarrow> string" where
  "layout_message env snapshotNumber =
     preamble env snapshotNumber @ [CHR 0x0A, CHR 0x0A]
     @ ''Expected snapshot dimensions to be the same, but dimensions changed.''"

text \<open>
  \<open>checkImages\<close> after the call of \<open>compare\<close>, lines 64 to 101: from the result of
  the comparison to the result of the matcher. \<open>typeof t === "number"\<close> holds of
  every configured threshold (\<open>Some\<close>), NaN too; a missing \<open>diffCount\<close> or
  \<open>diffPercentage\<close> compares as NaN.
\<close>

definition checkImages_verdict ::
  "env \<Rightarrow> nat \<Rightarrow> JestScreenshotConfiguration \<Rightarrow> OdiffReturnType \<Rightarrow> ImageMatcherResult" where
  "checkImages_verdict env snapshotNumber configuration r =
     (if pixelThresholdAbsolute configuration \<noteq> None
         \<and> num_gt (ToNumber (diffCount r)) (ToNumber (pixelThresholdAbsolute configuration))
      then
        \<lparr>pass = False,
         message = Some (absolute_message env snapshotNumber configuration r),
         changedRelative = diffPercentage r,
         changedPixels = diffCount r\<rparr>
      else if pixelThresholdRelative configuration \<noteq> None
         \<and> num_gt (ToNumber (diffPercentage r))
              (ToNumber (pixelThresholdRelative configuration))
      then
        \<lparr>pass = False,
         message = Some (relative_message env snapshotNumber configuration r),
         changedRelative = diffPercentage r,
         changedPixels = diffCount r\<rparr>
      else if match r = False \<and> reason r = Some LayoutDiff then
        \<lparr>pass = False,
         message = Some (layout_message env snapshotNumber),
         changedRelative = diffPercentage r,
         changedPixels = diffCount r\<rparr>
      else \<lparr>pass = True, message = None, changedRelative = None, changedPixels = None\<rparr>)"

text \<open>The options \<open>checkImages\<close> passes to \<open>compare\<close>, lines 56 to 58.\<close>

definition options_of :: "JestScreenshotConfiguration \<Rightarrow> odiff_options" where
  "options_of configuration =
     \<lparr>antialiasing = detectAntialiasing configuration, diffColor = None,
      threshold = colorThreshold configuration, outputDiffMask = True\<rparr>"

definition checkImages ::
  "env \<Rightarrow> string \<Rightarrow> string \<Rightarrow> string \<Rightarrow> nat \<Rightarrow> JestScreenshotConfiguration \<Rightarrow> world
     \<Rightarrow> ImageMatcherResult completion \<times> world" where
  "checkImages env snapshotPath receivedPath diffPath snapshotNumber configuration w =
     (case compare env receivedPath snapshotPath diffPath
             (options_of configuration) w of
        (Threw e, w1) \<Rightarrow> (Threw e, w1)
      | (Returned r, w1) \<Rightarrow>
          (Returned (checkImages_verdict env snapshotNumber configuration r), w1))"

record ToMatchImageSnapshotParameters =
  path :: "string option"

definition not_written_message :: "env \<Rightarrow> string" where
  "not_written_message env =
     ''New snapshot was '' @ chalk_red env ''not written'' @ ''. ''
     @ ''The update flag must be explicitly passed to write a new snapshot.''
     @ [CHR 0x0A, CHR 0x0A]
     @ ''This is likely because this test is run in a continuous integration (CI) environment ''
     @ ''in which snapshots are not written by default.''"

text \<open>The report bundle, lines 178 to 200, written when a comparison failed, the
  update mode is not \<open>all\<close> and \<open>noReport\<close> is off.\<close>

definition write_report ::
  "env \<Rightarrow> jest_context \<Rightarrow> string \<Rightarrow> JestScreenshotConfiguration \<Rightarrow> string \<Rightarrow> string
     \<Rightarrow> string \<Rightarrow> nat \<Rightarrow> ImageMatcherResult \<Rightarrow> world \<Rightarrow> unit completion \<times> world" where
  "write_report env this received configuration reportPath snapshotPath tmpDiffPath
       snapshotNumber res w =
     (let w1 = mkdirp env reportPath w;
          receivedPath = path_join env reportPath ''received.png'';
          diffPath = path_join env reportPath ''diff.png'';
          snapshotPathReport = path_join env reportPath ''snapshot.png'';
          w2 = writeFileSync receivedPath received w1
      in case copyFileSync tmpDiffPath diffPath w2 of
           (Threw e, w3) \<Rightarrow> (Threw e, w3)
         | (Returned _, w3) \<Rightarrow>
        (case copyFileSync snapshotPath snapshotPathReport w3 of
           (Threw e, w4) \<Rightarrow> (Threw e, w4)
         | (Returned _, w4) \<Rightarrow>
        (case message res of
           None \<Rightarrow> (Threw (JsError ''TypeError: message is not a function'' None None), w4)
         | Some m \<Rightarrow>
             (Returned (),
              writeFileSync (path_join env reportPath ''info.json'')
                (JSON_stringify env
                   \<lparr>info_testName = currentTestName this,
                    info_message = m,
                    info_changedRelative = changedRelative res,
                    info_changedPixels = changedPixels res,
                    info_testFileName = path_relative env (process_cwd env) (testPath this),
                    info_snapshotNumber = snapshotNumber,
                    info_receivedPath =
                      path_relative env (getReportDir env (reportDir configuration)) receivedPath,
                    info_diffPath =
                      path_relative env (getReportDir env (reportDir configuration)) diffPath,
                    info_snapshotPath =
                      path_relative env (getReportDir env (reportDir configuration))
                        snapshotPathReport\<rparr>)
                w4))))"

text \<open>
  Lines 130 and 131: \<open>(counters.get(name) || 0) + 1\<close>, where an absent counter and
  a counter \<open>0\<close> both count as \<open>0\<close>, is the number of this snapshot and is stored
  back.
\<close>

definition next_snapshotNumber :: "jest_context \<Rightarrow> world \<Rightarrow> nat" where
  "next_snapshotNumber this w =
     (case counters (snapshotState w) (currentTestName this) of
        None \<Rightarrow> 0
      | Some c \<Rightarrow> c) + 1"

definition count_snapshot :: "jest_context \<Rightarrow> world \<Rightarrow> world" where
  "count_snapshot this w =
     w\<lparr>snapshotState := (snapshotState w)
         \<lparr>counters := (counters (snapshotState w))
                         (currentTestName this \<mapsto> next_snapshotNumber this w)\<rparr>\<rparr>"

text \<open>Lines 132 to 134: the path given with the call wins over the derived one.\<close>

definition snapshotPath_of ::
  "env \<Rightarrow> jest_context \<Rightarrow> JestScreenshotConfiguration \<Rightarrow> ToMatchImageSnapshotParameters
     \<Rightarrow> world \<Rightarrow> string" where
  "snapshotPath_of env this configuration parameters w =
     (case path parameters of
        Some p \<Rightarrow> p
      | None \<Rightarrow> getSnapshotPath env (testPath this) (currentTestName this)
                  (snapshotState w) (snapshotsDir configuration))"

text \<open>Lines 157 to 161: a new temporary directory, and the received image written
  into it. The result is the two temporary paths and the world after the write.\<close>

definition write_received :: "env \<Rightarrow> string \<Rightarrow> world \<Rightarrow> string \<times> string \<times> world" where
  "write_received env received w =
     (let (tmpComparisonDir, w1) =
            mkdtempSync env (path_join env (os_tmpdir env) ''jest-screenshot-odiff-'') w;
          tmpReceivedPath = path_join env tmpComparisonDir ''received.png'';
          tmpDiffPath = path_join env tmpComparisonDir ''diff.png''
      in (tmpReceivedPath, tmpDiffPath, writeFileSync tmpReceivedPath received w1))"

definition toMatchImageSnapshot ::
  "env \<Rightarrow> jest_context \<Rightarrow> string \<Rightarrow> JestScreenshotConfiguration
     \<Rightarrow> ToMatchImageSnapshotParameters \<Rightarrow> world \<Rightarrow> MatcherResult completion \<times> world" where
  "toMatchImageSnapshot env this received configuration parameters w =
     (if \<not> isJestTestConfiguration env this then
        (Threw (JsError
           ''Jest: Attempted to call `.toMatchImageSnapshot()` outside of Jest context.''
           None None), w)
      else if isNot this then
        (Threw (JsError ''Jest: `.not` cannot be used with `.toMatchImageSnapshot()`.''
           None None), w)
      else
        let updateMode = updateSnapshot (snapshotState w);
            snapshotNumber = next_snapshotNumber this w;
            w1 = count_snapshot this w;
            snapshotPath = snapshotPath_of env this configuration parameters w1;
            reportPath = getReportPath env (testPath this) (currentTestName this)
                           (snapshotState w1) (reportDir configuration);
            w2 = mkdirp env (path_dirname env snapshotPath) w1
        in
        if \<not> existsSync snapshotPath w2 then
          (if updateMode = ''new'' \<or> updateMode = ''all'' then
             (Returned \<lparr>pass = True, message = None\<rparr>,
              writeFileSync snapshotPath received
                (w2\<lparr>snapshotState := (snapshotState w2)
                      \<lparr>added := added (snapshotState w2) + 1\<rparr>\<rparr>))
           else
             (Returned \<lparr>pass = False, message = Some (not_written_message env)\<rparr>, w2))
        else
          let (tmpReceivedPath, tmpDiffPath, w4) = write_received env received w2
          in
          case checkImages env snapshotPath tmpReceivedPath tmpDiffPath snapshotNumber
                 configuration w4 of
            (Threw e, w5) \<Rightarrow> (Threw e, w5)
          | (Returned res, w5) \<Rightarrow>
              if \<not> pass res then
                (if updateMode = ''all'' then
                   (Returned \<lparr>pass = True, message = None\<rparr>,
                    writeFileSync snapshotPath received
                      (w5\<lparr>snapshotState := (snapshotState w5)
                            \<lparr>updated := updated (snapshotState w5) + 1\<rparr>\<rparr>))
                 else if \<not> noReport configuration then
                   (case write_report env this received configuration reportPath snapshotPath
                           tmpDiffPath snapshotNumber res w5 of
                      (Threw e, w6) \<Rightarrow> (Threw e, w6)
                    | (Returned _, w6) \<Rightarrow>
                        (Returned \<lparr>pass = pass res, message = message res\<rparr>, w6))
                 else (Returned \<lparr>pass = pass res, message = message res\<rparr>, w5))
              else (Returned \<lparr>pass = pass res, message = message res\<rparr>, w5))"

text \<open>
  A run of the test framework makes the calls of the matcher one after the other on
  the shared world, whatever each returns or throws. A call is the \<open>this\<close> of the
  matcher and its three arguments.
\<close>

type_synonym matcher_call =
  "jest_context \<times> string \<times> JestScreenshotConfiguration \<times> ToMatchImageSnapshotParameters"

text \<open>A call takes a snapshot number under a test name when it passes the two
  checks of its context and is made under that name.\<close>

definition takes_number :: "env \<Rightarrow> string \<Rightarrow> matcher_call \<Rightarrow> bool" where
  "takes_number env name call =
     (case call of (this, received, configuration, parameters) \<Rightarrow>
        isJestTestConfiguration env this \<and> \<not> isNot this \<and> currentTestName this = name)"

text \<open>The snapshot numbers the calls of a run take under one test name, in order,
  each read where line 130 computes it.\<close>

fun snapshot_numbers :: "env \<Rightarrow> string \<Rightarrow> matcher_call list \<Rightarrow> world \<Rightarrow> nat list" where
  "snapshot_numbers env name [] w = []"
| "snapshot_numbers env name ((this, received, configuration, parameters) # cs) w =
     (if isJestTestConfiguration env this \<and> \<not> isNot this \<and> currentTestName this = name
      then [next_snapshotNumber this w] else [])
     @ snapshot_numbers env name cs
         (snd (toMatchImageSnapshot env this received configuration parameters w))"

section \<open>The policy of the specification\<close>

text \<open>
  The policy in the words of the specification (section 4.2), to compare the code
  with: the first of the three rules that fails an outcome, in the order absolute
  threshold, relative threshold, dimension mismatch; \<open>None\<close> when the outcome
  passes.
\<close>

datatype rule = AbsoluteThreshold | RelativeThreshold | DimensionMismatch

definition policy :: "JestScreenshotConfiguration \<Rightarrow> OdiffReturnType \<Rightarrow> rule option" where
  "policy configuration r =
     (if (case pixelThresholdAbsolute configuration of
            None \<Rightarrow> False
          | Some t \<Rightarrow> num_gt (ToNumber (diffCount r)) t)
      then Some AbsoluteThreshold
      else if (case pixelThresholdRelative configuration of
                 None \<Rightarrow> False
               | Some t \<Rightarrow> num_gt (ToNumber (diffPercentage r)) t)
      then Some RelativeThreshold
      else if \<not> match r \<and> reason r = Some LayoutDiff
      then Some DimensionMismatch
      else None)"

text \<open>A threshold that is not negative: not configured, or not below \<open>0\<close> (the
  thresholds of the data model of the specification are such).\<close>

definition not_negative :: "number option \<Rightarrow> bool" where
  "not_negative t = (case t of None \<Rightarrow> True | Some x \<Rightarrow> \<not> num_gt (Num 0) x)"

section \<open>A host and inputs for concrete runs\<close>

text \<open>The decimal digits of a natural number, as \<open>Number.prototype.toString\<close>
  prints an integer below \<open>10^21\<close>.\<close>

fun show_nat :: "nat \<Rightarrow> string" where
  "show_nat n =
     (if n < 10 then [''0123456789'' ! n]
      else show_nat (n div 10) @ [''0123456789'' ! (n mod 10)])"

text \<open>What the child printed on its standard error, read from the error of a failed
  run: the third element of its output.\<close>

fun child_stderr :: "exec_result \<Rightarrow> string" where
  "child_stderr (ExecThrew (JsError m s (Some [a, b, Some err]))) = err"
| "child_stderr x = []"

text \<open>
  A host for concrete runs: exact rounding, numbers printed in decimal when they are
  naturals, no colours, one fixed snapshot path, and an engine that answers every
  command with \<open>x\<close>, prints the standard error \<open>x\<close> carries and leaves the files
  alone.
\<close>

definition test_env :: "exec_result \<Rightarrow> env" where
  "test_env x =
     \<lparr>round_to_double = Num,
      Number_toString =
        (\<lambda>n. case n of
               Num v \<Rightarrow> if v = real (nat \<lfloor>v\<rfloor>) then show_nat (nat \<lfloor>v\<rfloor>) else ''<number>''
             | _ \<Rightarrow> ''<number>''),
      toFixed = (\<lambda>n d. ''<fixed>''),
      JSON_stringify = info_message,
      chalk_red = (\<lambda>s. s),
      chalk_green = (\<lambda>s. s),
      require_resolve = (\<lambda>m. Inr ''/node_modules/odiff-bin/index.js''),
      path_resolve = (\<lambda>ps. join ''/'' (map Some ps)),
      path_join = (\<lambda>a b. a @ ''/'' @ b),
      path_dirname = (\<lambda>p. ''/snapshots''),
      path_relative = (\<lambda>a b. b),
      path_parents = (\<lambda>p. []),
      os_EOL = [CHR 0x0A],
      os_tmpdir = ''/tmp'',
      process_cwd = ''/'',
      execSync = (\<lambda>c fs. (x, child_stderr x, fs)),
      mkdtemp_name = (\<lambda>prefix fs. prefix @ ''XXXXXX''),
      isJestTestConfiguration = (\<lambda>this. testPath this \<noteq> []),
      getSnapshotPath = (\<lambda>t n st d. ''/snapshots/a.png''),
      getReportPath = (\<lambda>t n st d. ''/reports/a''),
      getReportDir = (\<lambda>d. d)\<rparr>"

definition test_world :: "string \<Rightarrow> file_system \<Rightarrow> world" where
  "test_world mode fs =
     \<lparr>files = fs, stderr = [],
      snapshotState = \<lparr>updateSnapshot = mode, counters = Map.empty, added = 0, updated = 0\<rparr>\<rparr>"

definition test_this :: jest_context where
  "test_this = \<lparr>testPath = ''/t/a.test.js'', currentTestName = ''shows the page'', isNot = False\<rparr>"

definition other_this :: jest_context where
  "other_this =
     \<lparr>testPath = ''/t/a.test.js'', currentTestName = ''shows the menu'', isNot = False\<rparr>"

definition test_parameters :: ToMatchImageSnapshotParameters where
  "test_parameters = \<lparr>path = None\<rparr>"

definition test_configuration ::
  "number option \<Rightarrow> number option \<Rightarrow> JestScreenshotConfiguration" where
  "test_configuration absolute relative =
     \<lparr>colorThreshold = None, detectAntialiasing = False,
      pixelThresholdAbsolute = absolute, pixelThresholdRelative = relative,
      snapshotsDir = ''/snapshots'', reportDir = ''/reports'', noReport = False\<rparr>"

definition test_options :: odiff_options where
  "test_options =
     \<lparr>antialiasing = False, diffColor = None, threshold = None, outputDiffMask = True\<rparr>"

text \<open>The error \<open>execSync\<close> throws when the engine exits with a non-zero code.\<close>

definition exit_error :: "real \<Rightarrow> string \<Rightarrow> string \<Rightarrow> js_error" where
  "exit_error code out err =
     JsError ''Command failed'' (Some (Num code)) (Some [None, Some out, Some err])"

text \<open>An output of the engine for 50 differing pixels, 10.5 percent of the image, and
  the outcome it stands for; the outcome of two equal images.\<close>

definition sample_output :: string where
  "sample_output = ''50;10.5'' @ [CHR 0x0A]"

definition pixel_diff_50 :: OdiffReturnType where
  "pixel_diff_50 =
     \<lparr>match = False, reason = Some PixelDiff,
      diffCount = Some (Num 50), diffPercentage = Some (Num (21 / 200))\<rparr>"

definition no_difference :: OdiffReturnType where
  "no_difference =
     \<lparr>match = True, reason = None, diffCount = Some (Num 0), diffPercentage = Some (Num 0)\<rparr>"

text \<open>A world in which the reference image is there, and a call of the matcher with
  no threshold configured.\<close>

definition reference_world :: "string \<Rightarrow> world" where
  "reference_world mode = test_world mode [''/snapshots/a.png'' \<mapsto> File ''OLD'']"

definition test_call :: "jest_context \<Rightarrow> matcher_call" where
  "test_call this = (this, ''PNG'', test_configuration None None, test_parameters)"

section \<open>Facts about the model\<close>

lemma split_not_Nil: "split sep s \<noteq> []"
  by (induction s) (auto split: list.splits)

lemma run_execSync_eq:
  assumes "execSync env command (files w) = (x, printed, fs)"
  shows "run_execSync env command w =
           (x, w\<lparr>files := fs, stderr := stderr w @ (if printed = [] then [] else [printed])\<rparr>)"
  using assms by (simp add: run_execSync_def stderr_write_def)

lemma compare_exec_returned:
  assumes "require_resolve env ''odiff-bin'' = Inr p"
      and "execSync env (compare_command env p a b diff options) (files w)
             = (ExecReturned out, printed, fs)"
  shows "compare env a b diff options w =
           (Returned \<lparr>match = True, reason = None,
                      diffCount = Some (Num 0), diffPercentage = Some (Num 0)\<rparr>,
            w\<lparr>files := fs, stderr := stderr w @ (if printed = [] then [] else [printed])\<rparr>)"
  using assms by (simp add: compare_def compare_try_def run_execSync_eq)

lemma compare_exec_threw:
  assumes "require_resolve env ''odiff-bin'' = Inr p"
      and "execSync env (compare_command env p a b diff options) (files w)
             = (ExecThrew e, printed, fs)"
  shows "compare env a b diff options w =
           compare_catch env e
             (w\<lparr>files := fs, stderr := stderr w @ (if printed = [] then [] else [printed])\<rparr>)"
  using assms by (simp add: compare_def compare_try_def run_execSync_eq)

lemma compare_resolve_threw:
  assumes "require_resolve env ''odiff-bin'' = Inl e"
  shows "compare env a b diff options w = compare_catch env e w"
  using assms by (simp add: compare_def compare_try_def)

lemma catch_21:
  "e_status e = Some (Num 21) \<Longrightarrow>
   compare_catch env e w =
     (Returned \<lparr>match = False, reason = Some LayoutDiff,
                diffCount = Some (Num 0), diffPercentage = Some (Num 0)\<rparr>, w)"
  by (simp add: compare_catch_def status_truthy_def)

lemma catch_22:
  "e_status e = Some (Num 22) \<Longrightarrow>
   compare_catch env e w =
     (Returned \<lparr>match = False, reason = Some PixelDiff,
         diffCount = Some (parseInt (round_to_double env)
                       (case output_fields e of [] \<Rightarrow> ''0'' | c # _ \<Rightarrow> c)),
         diffPercentage = Some (num_div (round_to_double env)
                       (parseFloat (round_to_double env)
                          (case output_fields e of c # p # _ \<Rightarrow> p | _ \<Rightarrow> ''0'')) 100)\<rparr>, w)"
  by (simp add: compare_catch_def status_truthy_def Let_def)

lemma catch_other:
  "e_status e \<noteq> Some (Num 21) \<Longrightarrow> e_status e \<noteq> Some (Num 22) \<Longrightarrow>
   compare_catch env e w =
     (Threw e,
      w\<lparr>stderr := stderr w
          @ [''Error executing odiff image comparison in '' @ [CHR 0x22]
               @ ''@craft.co/jest-screenshot-odiff'' @ [CHR 0x22]]
          @ (if status_truthy e
             then [''Exit code: '' @ Number_toString env (the (e_status e))] else [])
          @ (case e_output e of Some out \<Rightarrow> [join (os_EOL env) out] | None \<Rightarrow> [])\<rparr>)"
  by (simp add: compare_catch_def stderr_write_def Let_def split: option.splits)

text \<open>The test host and the test errors, field by field.\<close>

lemma test_env_simps:
  "require_resolve (test_env x) m = Inr ''/node_modules/odiff-bin/index.js''"
  "execSync (test_env x) cmd fs = (x, child_stderr x, fs)"
  "round_to_double (test_env x) = Num"
  "Number_toString (test_env x) (Num 1) = ''1''"
  "os_EOL (test_env x) = [CHR 0x0A]"
  by (simp_all add: test_env_def)

lemma exit_error_simps:
  "e_status (exit_error code out err) = Some (Num code)"
  "e_output (exit_error code out err) = Some [None, Some out, Some err]"
  "child_stderr (ExecThrew (exit_error code out err)) = err"
  by (simp_all add: exit_error_def)

text \<open>\<open>join\<close>, \<open>trim\<close> and \<open>split\<close> in terms of the list functions of HOL.\<close>

lemma join_Nil:
  "join [] xs = concat (map (\<lambda>x. case x of None \<Rightarrow> [] | Some s \<Rightarrow> s) xs)"
  by (induction "[] :: string" xs rule: join.induct) simp_all

lemma trim_decomposed:
  assumes "\<forall>ch \<in> set (lead @ trail). isWhiteSpace ch"
      and "body = [] \<or> (\<not> isWhiteSpace (hd body) \<and> \<not> isWhiteSpace (last body))"
  shows "trim (lead @ body @ trail) = body"
proof -
  have l: "dropWhile isWhiteSpace (lead @ body @ trail) = dropWhile isWhiteSpace (body @ trail)"
    by (rule dropWhile_append2) (use assms(1) in auto)
  show ?thesis
  proof (cases "body = []")
    case True
    have d: "dropWhile isWhiteSpace (lead @ trail) = []"
      unfolding dropWhile_eq_Nil_conv using assms(1) by blast
    have "trim (lead @ trail) = []"
      unfolding trim_def d by simp
    with True show ?thesis by simp
  next
    case False
    then obtain b bs where b: "body = b # bs" by (cases body) auto
    with assms(2) have nb: "\<not> isWhiteSpace b" by simp
    from False assms(2) have nl: "\<not> isWhiteSpace (last body)" by simp
    have "dropWhile isWhiteSpace (body @ trail) = body @ trail"
      using nb by (simp add: b)
    moreover have "dropWhile isWhiteSpace (rev trail @ rev body) = dropWhile isWhiteSpace (rev body)"
      by (rule dropWhile_append2) (use assms(1) in auto)
    moreover have "dropWhile isWhiteSpace (rev body) = rev body"
      using False nl by (cases "rev body") (auto simp: last_rev [symmetric] hd_rev)
    ultimately show ?thesis by (simp add: trim_def l)
  qed
qed

lemma split_no_separator: "sep \<notin> set s \<Longrightarrow> split sep s = [s]"
  by (induction s) auto

lemma split_at_separator: "sep \<notin> set c \<Longrightarrow> split sep (c @ sep # r) = c # split sep r"
  by (induction c) auto

lemma split_two_fields:
  assumes "sep \<notin> set c" and "sep \<notin> set q" and "rest = [] \<or> hd rest = sep"
  shows "\<exists>more. split sep (c @ sep # q @ rest) = c # q # more"
proof (cases rest)
  case Nil
  with assms show ?thesis by (simp add: split_at_separator split_no_separator)
next
  case (Cons x xs)
  with assms show ?thesis by (simp add: split_at_separator)
qed

lemma output_fields_decomposed:
  assumes "(case e_output e of
              None \<Rightarrow> []
            | Some out \<Rightarrow> concat (map (\<lambda>x. case x of None \<Rightarrow> [] | Some s \<Rightarrow> s) out))
           = lead @ body @ trail"
      and "\<forall>ch \<in> set (lead @ trail). isWhiteSpace ch"
      and "body = [] \<or> (\<not> isWhiteSpace (hd body) \<and> \<not> isWhiteSpace (last body))"
  shows "output_fields e = split CHR '';'' body"
proof -
  have "join [] (case e_output e of None \<Rightarrow> [] | Some out \<Rightarrow> out) = lead @ body @ trail"
    using assms(1) by (cases "e_output e") (simp_all add: join_Nil)
  then show ?thesis
    using assms(2,3) by (simp add: output_fields_def trim_decomposed)
qed

lemma output_fields_50:
  "output_fields (exit_error 22 sample_output []) = [''50'', ''10.5'']"
  by (simp add: output_fields_def exit_error_simps trim_def isWhiteSpace_def sample_output_def)

lemma parseInt_50: "parseInt Num ''50'' = Num 50"
  by (simp add: parseInt_def trimStart_def isWhiteSpace_def is_digit_def digit_value_def
        digits_value_def)

lemma parseFloat_10_5: "parseFloat Num ''10.5'' = Num (21 / 2)"
  by (simp add: parseFloat_def trimStart_def isWhiteSpace_def is_digit_def digit_value_def
        digits_value_def)

lemma parseFloat_0: "parseFloat Num ''0'' = Num 0"
  by (simp add: parseFloat_def trimStart_def isWhiteSpace_def is_digit_def digit_value_def
        digits_value_def)

lemma parseFloat_empty: "parseFloat rnd [] = NaN"
  by (simp add: parseFloat_def trimStart_def)

lemma parseInt_50_warning: "parseInt Num ''50warning'' = Num 50"
  by (simp add: parseInt_def trimStart_def isWhiteSpace_def is_digit_def digit_value_def
        digits_value_def)

lemma compare_try_returned:
  "compare_try env a b diff options w = (Returned r, w1) \<Longrightarrow>
   r = \<lparr>match = True, reason = None, diffCount = Some (Num 0), diffPercentage = Some (Num 0)\<rparr>"
  by (auto simp: compare_try_def split: sum.splits exec_result.splits prod.splits)

lemma compare_catch_returned:
  "compare_catch env e w = (Returned r, w1) \<Longrightarrow>
   r = \<lparr>match = False, reason = Some LayoutDiff,
        diffCount = Some (Num 0), diffPercentage = Some (Num 0)\<rparr>
   \<or> (match r = False \<and> reason r = Some PixelDiff)"
  by (auto simp: compare_catch_def Let_def split: if_splits)

lemma compare_returned:
  assumes "compare env a b diff options w = (Returned r, w1)"
  shows "r = \<lparr>match = True, reason = None, diffCount = Some (Num 0), diffPercentage = Some (Num 0)\<rparr>
   \<or> r = \<lparr>match = False, reason = Some LayoutDiff,
          diffCount = Some (Num 0), diffPercentage = Some (Num 0)\<rparr>
   \<or> (match r = False \<and> reason r = Some PixelDiff)"
proof (cases "compare_try env a b diff options w")
  case (Pair c w0)
  show ?thesis
  proof (cases c)
    case (Returned r0)
    with Pair assms have "r0 = r" by (simp add: compare_def)
    with Pair Returned compare_try_returned show ?thesis by blast
  next
    case (Threw e)
    with Pair assms have "compare_catch env e w0 = (Returned r, w1)" by (simp add: compare_def)
    then show ?thesis using compare_catch_returned by blast
  qed
qed

lemma test_compare_0:
  "compare (test_env (ExecReturned [])) a b diff options w =
     (Returned \<lparr>match = True, reason = None,
                diffCount = Some (Num 0), diffPercentage = Some (Num 0)\<rparr>, w)"
  using compare_exec_returned [where env = "test_env (ExecReturned [])" and a = a and b = b
          and diff = diff and options = options and w = w and out = "[]" and printed = "[]"
          and fs = "files w"]
  by (simp add: test_env_simps)

lemma test_compare_21:
  "compare (test_env (ExecThrew (exit_error 21 out []))) a b diff options w =
     (Returned \<lparr>match = False, reason = Some LayoutDiff,
                diffCount = Some (Num 0), diffPercentage = Some (Num 0)\<rparr>, w)"
  using compare_exec_threw [where env = "test_env (ExecThrew (exit_error 21 out []))" and a = a
          and b = b and diff = diff and options = options and w = w
          and e = "exit_error 21 out []" and printed = "[]" and fs = "files w"]
  by (simp add: test_env_simps catch_21 exit_error_simps)

lemma test_compare_22:
  "compare (test_env (ExecThrew (exit_error 22 sample_output []))) a b diff options w =
     (Returned \<lparr>match = False, reason = Some PixelDiff,
                diffCount = Some (Num 50), diffPercentage = Some (Num (21 / 200))\<rparr>, w)"
  using compare_exec_threw [where env = "test_env (ExecThrew (exit_error 22 sample_output []))"
          and a = a and b = b and diff = diff and options = options and w = w
          and e = "exit_error 22 sample_output []" and printed = "[]" and fs = "files w"]
        output_fields_50
  by (simp add: test_env_simps catch_22 exit_error_simps parseInt_50 parseFloat_10_5)

lemma parseInt_empty: "parseInt rnd [] = NaN"
  by (simp add: parseInt_def trimStart_def)

lemma checkImages_returned:
  "compare env receivedPath snapshotPath diffPath (options_of c) w = (Returned r, w1) \<Longrightarrow>
   checkImages env snapshotPath receivedPath diffPath n c w =
     (Returned (checkImages_verdict env n c r), w1)"
  by (simp add: checkImages_def)

lemma checkImages_threw:
  "compare env receivedPath snapshotPath diffPath (options_of c) w = (Threw e, w1) \<Longrightarrow>
   checkImages env snapshotPath receivedPath diffPath n c w = (Threw e, w1)"
  by (simp add: checkImages_def)

lemma num_gt_irrefl: "\<not> num_gt x x"
  by (cases x) simp_all

lemma verdict_policy:
  "checkImages_verdict env n c r =
     (case policy c r of
        Some AbsoluteThreshold \<Rightarrow>
          \<lparr>pass = False, message = Some (absolute_message env n c r),
           changedRelative = diffPercentage r, changedPixels = diffCount r\<rparr>
      | Some RelativeThreshold \<Rightarrow>
          \<lparr>pass = False, message = Some (relative_message env n c r),
           changedRelative = diffPercentage r, changedPixels = diffCount r\<rparr>
      | Some DimensionMismatch \<Rightarrow>
          \<lparr>pass = False, message = Some (layout_message env n),
           changedRelative = diffPercentage r, changedPixels = diffCount r\<rparr>
      | None \<Rightarrow>
          \<lparr>pass = True, message = None, changedRelative = None, changedPixels = None\<rparr>)"
  by (cases "pixelThresholdAbsolute c"; cases "pixelThresholdRelative c")
     (simp_all add: checkImages_verdict_def policy_def)

lemma pass_policy: "pass (checkImages_verdict env n c r) = (policy c r = None)"
  by (simp add: verdict_policy split: option.splits rule.splits)

lemma test_configuration_simps:
  "pixelThresholdAbsolute (test_configuration t u) = t"
  "pixelThresholdRelative (test_configuration t u) = u"
  "noReport (test_configuration t u) = False"
  by (simp_all add: test_configuration_def)

lemma pixel_diff_50_simps:
  "match pixel_diff_50 = False"
  "reason pixel_diff_50 = Some PixelDiff"
  "diffCount pixel_diff_50 = Some (Num 50)"
  "diffPercentage pixel_diff_50 = Some (Num (21 / 200))"
  by (simp_all add: pixel_diff_50_def)

lemma test_checkImages_22:
  "checkImages (test_env (ExecThrew (exit_error 22 sample_output [])))
      snapshotPath receivedPath diffPath n c w
   = (Returned (checkImages_verdict
        (test_env (ExecThrew (exit_error 22 sample_output []))) n c pixel_diff_50), w)"
  by (simp add: checkImages_returned test_compare_22 pixel_diff_50_def)

lemma make_directories_apply:
  "make_directories ps fs p = (if fs p = None \<and> p \<in> set ps then Some Directory else fs p)"
  by (induction ps arbitrary: fs) auto

lemma mkdirp_frame:
  "snapshotState (mkdirp env p w) = snapshotState w"
  "stderr (mkdirp env p w) = stderr w"
  "files (mkdirp env d w) p = Some (File x) \<longleftrightarrow> files w p = Some (File x)"
  by (simp_all add: mkdirp_def make_directories_apply)

lemma writeFileSync_frame:
  "snapshotState (writeFileSync p d w) = snapshotState w"
  "stderr (writeFileSync p d w) = stderr w"
  "files (writeFileSync p d w) = (files w)(p \<mapsto> File d)"
  by (simp_all add: writeFileSync_def)

lemma write_received_frame:
  assumes "write_received env received w = (tr, td, w')"
  shows "snapshotState w' = snapshotState w" and "stderr w' = stderr w"
  using assms
  by (auto simp: write_received_def mkdtempSync_def Let_def writeFileSync_def)

lemma copyFileSync_frame:
  assumes "copyFileSync src dst w = (x, w')"
  shows "snapshotState w' = snapshotState w" and "stderr w' = stderr w"
  using assms
  by (auto simp: copyFileSync_def writeFileSync_def split: option.splits node.splits)

lemma run_execSync_frame:
  assumes "run_execSync env command w = (x, w')"
  shows "snapshotState w' = snapshotState w"
  using assms
  by (auto simp: run_execSync_def stderr_write_def split: prod.splits if_splits)

lemma compare_try_frame:
  assumes "compare_try env a b diff options w = (x, w')"
  shows "snapshotState w' = snapshotState w"
  using assms
  by (auto simp: compare_try_def dest: run_execSync_frame
           split: sum.splits prod.splits exec_result.splits)

lemma compare_catch_frame:
  assumes "compare_catch env e w = (x, w')"
  shows "snapshotState w' = snapshotState w"
  using assms
  by (auto simp: compare_catch_def stderr_write_def Let_def split: if_splits option.splits)

lemma compare_frame:
  assumes "compare env a b diff options w = (x, w')"
  shows "snapshotState w' = snapshotState w"
proof (cases "compare_try env a b diff options w")
  case (Pair c w0)
  then have s: "snapshotState w0 = snapshotState w"
    by (rule compare_try_frame)
  show ?thesis
  proof (cases c)
    case (Returned r)
    with Pair assms s show ?thesis by (simp add: compare_def)
  next
    case (Threw e)
    with Pair assms have "compare_catch env e w0 = (x, w')" by (simp add: compare_def)
    then show ?thesis using s by (simp add: compare_catch_frame)
  qed
qed

lemma checkImages_frame:
  assumes "checkImages env sp rp dp n c w = (x, w')"
  shows "snapshotState w' = snapshotState w"
proof (cases "compare env rp sp dp (options_of c) w")
  case (Pair y w0)
  then have "snapshotState w0 = snapshotState w" by (rule compare_frame)
  with Pair assms show ?thesis
    by (cases y) (auto simp: checkImages_def)
qed

lemma write_report_frame:
  assumes "write_report env this received c rp sp td n res w = (x, w')"
  shows "snapshotState w' = snapshotState w"
proof -
  let ?w2 = "writeFileSync (path_join env rp ''received.png'') received (mkdirp env rp w)"
  have s2: "snapshotState ?w2 = snapshotState w"
    by (simp add: writeFileSync_frame mkdirp_frame)
  obtain x3 w3 where c3: "copyFileSync td (path_join env rp ''diff.png'') ?w2 = (x3, w3)"
    by (cases "copyFileSync td (path_join env rp ''diff.png'') ?w2")
  then have s3: "snapshotState w3 = snapshotState w"
    using s2 by (simp add: copyFileSync_frame)
  obtain x4 w4 where c4: "copyFileSync sp (path_join env rp ''snapshot.png'') w3 = (x4, w4)"
    by (cases "copyFileSync sp (path_join env rp ''snapshot.png'') w3")
  then have s4: "snapshotState w4 = snapshotState w"
    using s3 by (simp add: copyFileSync_frame)
  show ?thesis
    using assms c3 c4 s3 s4
    by (cases x3; cases x4; cases "message res")
       (auto simp: write_report_def Let_def writeFileSync_frame)
qed

lemma matcher_outside:
  "\<not> isJestTestConfiguration env this \<Longrightarrow>
   toMatchImageSnapshot env this received configuration parameters w =
     (Threw (JsError
        ''Jest: Attempted to call `.toMatchImageSnapshot()` outside of Jest context.''
        None None), w)"
  by (simp add: toMatchImageSnapshot_def)

lemma matcher_negated:
  "isJestTestConfiguration env this \<Longrightarrow> isNot this \<Longrightarrow>
   toMatchImageSnapshot env this received configuration parameters w =
     (Threw (JsError ''Jest: `.not` cannot be used with `.toMatchImageSnapshot()`.''
        None None), w)"
  by (simp add: toMatchImageSnapshot_def)

lemma matcher_absent:
  assumes "isJestTestConfiguration env this" and "\<not> isNot this"
      and "sp = snapshotPath_of env this configuration parameters (count_snapshot this w)"
      and "w2 = mkdirp env (path_dirname env sp) (count_snapshot this w)"
      and "\<not> existsSync sp w2"
  shows "toMatchImageSnapshot env this received configuration parameters w =
     (if updateSnapshot (snapshotState w) = ''new'' \<or> updateSnapshot (snapshotState w) = ''all''
      then (Returned \<lparr>pass = True, message = None\<rparr>,
            writeFileSync sp received
              (w2\<lparr>snapshotState := (snapshotState w2)
                    \<lparr>added := added (snapshotState w2) + 1\<rparr>\<rparr>))
      else (Returned \<lparr>pass = False, message = Some (not_written_message env)\<rparr>, w2))"
  using assms by (simp add: toMatchImageSnapshot_def Let_def)

lemma matcher_present:
  assumes "isJestTestConfiguration env this" and "\<not> isNot this"
      and "sp = snapshotPath_of env this configuration parameters (count_snapshot this w)"
      and "w2 = mkdirp env (path_dirname env sp) (count_snapshot this w)"
      and "existsSync sp w2"
      and "write_received env received w2 = (tr, td, w4)"
      and "checkImages env sp tr td (next_snapshotNumber this w) configuration w4 = (x, w5)"
  shows "toMatchImageSnapshot env this received configuration parameters w =
     (case x of
        Threw e \<Rightarrow> (Threw e, w5)
      | Returned res \<Rightarrow>
          if \<not> pass res then
            (if updateSnapshot (snapshotState w) = ''all'' then
               (Returned \<lparr>pass = True, message = None\<rparr>,
                writeFileSync sp received
                  (w5\<lparr>snapshotState := (snapshotState w5)
                        \<lparr>updated := updated (snapshotState w5) + 1\<rparr>\<rparr>))
             else if \<not> noReport configuration then
               (case write_report env this received configuration
                       (getReportPath env (testPath this) (currentTestName this)
                          (snapshotState (count_snapshot this w)) (reportDir configuration))
                       sp td (next_snapshotNumber this w) res w5 of
                  (Threw e, w6) \<Rightarrow> (Threw e, w6)
                | (Returned _, w6) \<Rightarrow>
                    (Returned \<lparr>pass = pass res, message = message res\<rparr>, w6))
             else (Returned \<lparr>pass = pass res, message = message res\<rparr>, w5))
          else (Returned \<lparr>pass = pass res, message = message res\<rparr>, w5))"
  using assms by (simp add: toMatchImageSnapshot_def Let_def split: completion.splits)

lemma count_snapshot_frame:
  "counters (snapshotState (count_snapshot this w)) =
     (counters (snapshotState w))(currentTestName this \<mapsto> next_snapshotNumber this w)"
  "updateSnapshot (snapshotState (count_snapshot this w)) = updateSnapshot (snapshotState w)"
  "added (snapshotState (count_snapshot this w)) = added (snapshotState w)"
  "updated (snapshotState (count_snapshot this w)) = updated (snapshotState w)"
  "files (count_snapshot this w) = files w"
  "stderr (count_snapshot this w) = stderr w"
  by (simp_all add: count_snapshot_def)

lemma matcher_counters:
  assumes "isJestTestConfiguration env this" and "\<not> isNot this"
  shows "counters (snapshotState
           (snd (toMatchImageSnapshot env this received configuration parameters w)))
         = (counters (snapshotState w))(currentTestName this \<mapsto> next_snapshotNumber this w)"
proof -
  define sp where "sp = snapshotPath_of env this configuration parameters (count_snapshot this w)"
  define w2 where "w2 = mkdirp env (path_dirname env sp) (count_snapshot this w)"
  have s2: "snapshotState w2 = snapshotState (count_snapshot this w)"
    by (simp add: w2_def mkdirp_frame)
  show ?thesis
  proof (cases "existsSync sp w2")
    case False
    show ?thesis
      unfolding matcher_absent [OF assms sp_def w2_def False]
      by (simp add: writeFileSync_frame s2 count_snapshot_frame)
  next
    case True
    obtain tr td w4 where wr: "write_received env received w2 = (tr, td, w4)"
      by (cases "write_received env received w2") auto
    then have s4: "snapshotState w4 = snapshotState (count_snapshot this w)"
      using s2 by (simp add: write_received_frame)
    obtain x w5 where ci:
      "checkImages env sp tr td (next_snapshotNumber this w) configuration w4 = (x, w5)"
      by (cases "checkImages env sp tr td (next_snapshotNumber this w) configuration w4")
    then have s5: "snapshotState w5 = snapshotState (count_snapshot this w)"
      using s4 by (simp add: checkImages_frame)
    obtain y w6 where wp:
      "write_report env this received configuration
         (getReportPath env (testPath this) (currentTestName this)
            (snapshotState (count_snapshot this w)) (reportDir configuration))
         sp td (next_snapshotNumber this w) (case x of Returned res \<Rightarrow> res) w5 = (y, w6)"
      by (cases "write_report env this received configuration
         (getReportPath env (testPath this) (currentTestName this)
            (snapshotState (count_snapshot this w)) (reportDir configuration))
         sp td (next_snapshotNumber this w) (case x of Returned res \<Rightarrow> res) w5")
    then have s6: "snapshotState w6 = snapshotState (count_snapshot this w)"
      using s5 by (simp add: write_report_frame)
    show ?thesis
      unfolding matcher_present [OF assms sp_def w2_def True wr ci]
      using s5 s6 wp
      by (cases x; cases y)
         (auto simp: writeFileSync_frame count_snapshot_frame)
  qed
qed

lemma matcher_counters_invalid:
  assumes "\<not> (isJestTestConfiguration env this \<and> \<not> isNot this)"
  shows "snd (toMatchImageSnapshot env this received configuration parameters w) = w"
  using assms by (auto simp: toMatchImageSnapshot_def)

lemma counter_after_call:
  "(case counters (snapshotState
       (snd (toMatchImageSnapshot env this received configuration parameters w))) name of
      None \<Rightarrow> 0 | Some c \<Rightarrow> c)
   = (case counters (snapshotState w) name of None \<Rightarrow> 0 | Some c \<Rightarrow> c)
     + (if takes_number env name (this, received, configuration, parameters) then 1 else 0)"
proof (cases "isJestTestConfiguration env this \<and> \<not> isNot this")
  case True
  then show ?thesis
    by (simp add: matcher_counters takes_number_def next_snapshotNumber_def)
next
  case False
  then show ?thesis
    by (simp add: matcher_counters_invalid takes_number_def)
qed

lemma snapshot_numbers_from:
  "snapshot_numbers env name calls w =
     map (\<lambda>i. (case counters (snapshotState w) name of None \<Rightarrow> 0 | Some c \<Rightarrow> c) + i)
       [1 ..< Suc (length (filter (takes_number env name) calls))]"
proof (induction calls arbitrary: w)
  case Nil
  then show ?case by simp
next
  case (Cons call calls)
  obtain this received configuration parameters
    where call: "call = (this, received, configuration, parameters)"
    by (cases call) auto
  let ?c = "case counters (snapshotState w) name of None \<Rightarrow> 0 | Some c \<Rightarrow> c"
  let ?k = "length (filter (takes_number env name) calls)"
  show ?case
  proof (cases "takes_number env name call")
    case True
    then have h: "isJestTestConfiguration env this \<and> \<not> isNot this \<and> currentTestName this = name"
      by (simp add: takes_number_def call)
    have "map (\<lambda>i. ?c + i) [1 ..< Suc (Suc ?k)] = (?c + 1) # map (\<lambda>i. ?c + 1 + i) [1 ..< Suc ?k]"
      by (simp add: upt_conv_Cons map_Suc_upt [symmetric] del: upt_Suc)
    moreover have "next_snapshotNumber this w = ?c + 1"
      using h by (simp add: next_snapshotNumber_def)
    ultimately show ?thesis
      using True h Cons.IH [of "snd (toMatchImageSnapshot env this received configuration parameters w)"]
        counter_after_call [of env this received configuration parameters w name]
      by (simp add: call del: upt_Suc)
  next
    case False
    then have h: "\<not> (isJestTestConfiguration env this \<and> \<not> isNot this \<and> currentTestName this = name)"
      by (simp add: takes_number_def call)
    show ?thesis
      using False h Cons.IH [of "snd (toMatchImageSnapshot env this received configuration parameters w)"]
        counter_after_call [of env this received configuration parameters w name]
      by (simp add: call del: upt_Suc)
  qed
qed

lemma test_context:
  "isJestTestConfiguration (test_env x) test_this"
  "\<not> isNot test_this"
  "isJestTestConfiguration (test_env x) other_this"
  "\<not> isNot other_this"
  "currentTestName test_this = ''shows the page''"
  "currentTestName other_this = ''shows the menu''"
  by (simp_all add: test_env_def test_this_def other_this_def)

lemma test_snapshotPath:
  "snapshotPath_of (test_env x) this c test_parameters w = ''/snapshots/a.png''"
  "path_dirname (test_env x) p = ''/snapshots''"
  by (simp_all add: snapshotPath_of_def test_env_def test_parameters_def)

lemma test_mkdirp:
  "files (mkdirp (test_env x) p w) = make_directories [p] (files w)"
  by (simp add: mkdirp_def test_env_def)

lemma test_write_received:
  "write_received (test_env x) received w =
     (''/tmp/jest-screenshot-odiff-XXXXXX/received.png'',
      ''/tmp/jest-screenshot-odiff-XXXXXX/diff.png'',
      w\<lparr>files := (files w)
          (''/tmp/jest-screenshot-odiff-XXXXXX'' \<mapsto> Directory,
           ''/tmp/jest-screenshot-odiff-XXXXXX/received.png'' \<mapsto> File received)\<rparr>)"
  by (simp add: write_received_def mkdtempSync_def writeFileSync_def Let_def test_env_def)

section \<open>Properties of the comparator adapter\<close>

text \<open>
  Claim C4. \<open>compare\<close> turns what the engine did into one of four results; in each,
  what the engine printed on its standard error has been written to \<open>stderr\<close>
  first, by \<open>execSync\<close>. When \<open>execSync\<close> returns (exit code 0) the result is the
  matched outcome. When it throws an error with status 21 the result is the
  unmatched outcome with reason \<open>layout-diff\<close>. When it throws an error with status
  22 the result is an unmatched outcome with reason \<open>pixel-diff\<close>, read from the
  output of the error: its elements joined, the white space at both ends removed.
  If that text has no \<open>;\<close>, \<open>diffCount\<close> is \<open>parseInt\<close> of the whole of it and
  \<open>diffPercentage\<close> is \<open>parseFloat\<close> of \<open>'0'\<close> divided by 100; if it has one,
  \<open>diffCount\<close> is \<open>parseInt\<close> of what comes before the first \<open>;\<close> and
  \<open>diffPercentage\<close> is \<open>parseFloat\<close> of what stands between the first \<open>;\<close> and
  the next one, or the end, divided by 100. Any other error, of the engine or of
  resolving the module, is thrown again unchanged, after the header, the exit code
  (when the error has a status that is not 0) and the output joined by the line
  separator (when the error has an output) were written to \<open>stderr\<close>.
\<close>

theorem compare_four_cases:
  "(require_resolve env ''odiff-bin'' = Inr p
      \<and> execSync env (compare_command env p a b diff options) (files w)
          = (ExecReturned out, printed, fs)
    \<longrightarrow> compare env a b diff options w =
          (Returned \<lparr>match = True, reason = None,
                     diffCount = Some (Num 0), diffPercentage = Some (Num 0)\<rparr>,
           w\<lparr>files := fs,
             stderr := stderr w @ (if printed = [] then [] else [printed])\<rparr>))
   \<and> (require_resolve env ''odiff-bin'' = Inr p
      \<and> execSync env (compare_command env p a b diff options) (files w)
          = (ExecThrew e, printed, fs)
      \<and> e_status e = Some (Num 21)
    \<longrightarrow> compare env a b diff options w =
          (Returned \<lparr>match = False, reason = Some LayoutDiff,
                     diffCount = Some (Num 0), diffPercentage = Some (Num 0)\<rparr>,
           w\<lparr>files := fs,
             stderr := stderr w @ (if printed = [] then [] else [printed])\<rparr>))
   \<and> (require_resolve env ''odiff-bin'' = Inr p
      \<and> execSync env (compare_command env p a b diff options) (files w)
          = (ExecThrew e, printed, fs)
      \<and> e_status e = Some (Num 22)
      \<and> (case e_output e of
           None \<Rightarrow> []
         | Some out \<Rightarrow> concat (map (\<lambda>x. case x of None \<Rightarrow> [] | Some s \<Rightarrow> s) out)) = lead @ body @ trail
      \<and> (\<forall>ch \<in> set (lead @ trail). isWhiteSpace ch)
      \<and> (body = [] \<or> (\<not> isWhiteSpace (hd body) \<and> \<not> isWhiteSpace (last body)))
      \<and> CHR '';'' \<notin> set body
    \<longrightarrow> compare env a b diff options w =
          (Returned \<lparr>match = False, reason = Some PixelDiff,
                     diffCount = Some (parseInt (round_to_double env) body),
                     diffPercentage =
                       Some (num_div (round_to_double env)
                               (parseFloat (round_to_double env) ''0'') 100)\<rparr>,
           w\<lparr>files := fs,
             stderr := stderr w @ (if printed = [] then [] else [printed])\<rparr>))
   \<and> (require_resolve env ''odiff-bin'' = Inr p
      \<and> execSync env (compare_command env p a b diff options) (files w)
          = (ExecThrew e, printed, fs)
      \<and> e_status e = Some (Num 22)
      \<and> (case e_output e of
           None \<Rightarrow> []
         | Some out \<Rightarrow> concat (map (\<lambda>x. case x of None \<Rightarrow> [] | Some s \<Rightarrow> s) out)) = lead @ body @ trail
      \<and> (\<forall>ch \<in> set (lead @ trail). isWhiteSpace ch)
      \<and> (body = [] \<or> (\<not> isWhiteSpace (hd body) \<and> \<not> isWhiteSpace (last body)))
      \<and> body = c @ CHR '';'' # q @ rest
      \<and> CHR '';'' \<notin> set c \<and> CHR '';'' \<notin> set q \<and> (rest = [] \<or> hd rest = CHR '';'')
    \<longrightarrow> compare env a b diff options w =
          (Returned \<lparr>match = False, reason = Some PixelDiff,
                     diffCount = Some (parseInt (round_to_double env) c),
                     diffPercentage =
                       Some (num_div (round_to_double env)
                               (parseFloat (round_to_double env) q) 100)\<rparr>,
           w\<lparr>files := fs,
             stderr := stderr w @ (if printed = [] then [] else [printed])\<rparr>))
   \<and> (require_resolve env ''odiff-bin'' = Inr p
      \<and> execSync env (compare_command env p a b diff options) (files w)
          = (ExecThrew e, printed, fs)
      \<and> e_status e \<noteq> Some (Num 21) \<and> e_status e \<noteq> Some (Num 22)
    \<longrightarrow> compare env a b diff options w =
          (Threw e,
           w\<lparr>files := fs,
             stderr := stderr w
               @ (if printed = [] then [] else [printed])
               @ [''Error executing odiff image comparison in '' @ [CHR 0x22]
                    @ ''@craft.co/jest-screenshot-odiff'' @ [CHR 0x22]]
               @ (if status_truthy e
                  then [''Exit code: '' @ Number_toString env (the (e_status e))] else [])
               @ (case e_output e of Some out \<Rightarrow> [join (os_EOL env) out] | None \<Rightarrow> [])\<rparr>))
   \<and> (require_resolve env ''odiff-bin'' = Inl e
      \<and> e_status e \<noteq> Some (Num 21) \<and> e_status e \<noteq> Some (Num 22)
    \<longrightarrow> compare env a b diff options w =
          (Threw e,
           w\<lparr>stderr := stderr w
               @ [''Error executing odiff image comparison in '' @ [CHR 0x22]
                    @ ''@craft.co/jest-screenshot-odiff'' @ [CHR 0x22]]
               @ (if status_truthy e
                  then [''Exit code: '' @ Number_toString env (the (e_status e))] else [])
               @ (case e_output e of Some out \<Rightarrow> [join (os_EOL env) out] | None \<Rightarrow> [])\<rparr>))"
proof (intro conjI impI)
  assume "require_resolve env ''odiff-bin'' = Inr p
      \<and> execSync env (compare_command env p a b diff options) (files w)
          = (ExecReturned out, printed, fs)"
  then show "compare env a b diff options w =
          (Returned \<lparr>match = True, reason = None,
                     diffCount = Some (Num 0), diffPercentage = Some (Num 0)\<rparr>,
           w\<lparr>files := fs,
             stderr := stderr w @ (if printed = [] then [] else [printed])\<rparr>)"
    by (simp add: compare_exec_returned)
next
  assume "require_resolve env ''odiff-bin'' = Inr p
      \<and> execSync env (compare_command env p a b diff options) (files w)
          = (ExecThrew e, printed, fs)
      \<and> e_status e = Some (Num 21)"
  then show "compare env a b diff options w =
          (Returned \<lparr>match = False, reason = Some LayoutDiff,
                     diffCount = Some (Num 0), diffPercentage = Some (Num 0)\<rparr>,
           w\<lparr>files := fs,
             stderr := stderr w @ (if printed = [] then [] else [printed])\<rparr>)"
    by (simp add: compare_exec_threw catch_21)
next
  assume "require_resolve env ''odiff-bin'' = Inr p
      \<and> execSync env (compare_command env p a b diff options) (files w)
          = (ExecThrew e, printed, fs)
      \<and> e_status e = Some (Num 22)
      \<and> (case e_output e of
           None \<Rightarrow> []
         | Some out \<Rightarrow> concat (map (\<lambda>x. case x of None \<Rightarrow> [] | Some s \<Rightarrow> s) out)) = lead @ body @ trail
      \<and> (\<forall>ch \<in> set (lead @ trail). isWhiteSpace ch)
      \<and> (body = [] \<or> (\<not> isWhiteSpace (hd body) \<and> \<not> isWhiteSpace (last body)))
      \<and> CHR '';'' \<notin> set body"
  then show "compare env a b diff options w =
          (Returned \<lparr>match = False, reason = Some PixelDiff,
                     diffCount = Some (parseInt (round_to_double env) body),
                     diffPercentage =
                       Some (num_div (round_to_double env)
                               (parseFloat (round_to_double env) ''0'') 100)\<rparr>,
           w\<lparr>files := fs,
             stderr := stderr w @ (if printed = [] then [] else [printed])\<rparr>)"
    by (simp add: compare_exec_threw catch_22 output_fields_decomposed split_no_separator)
next
  assume a: "require_resolve env ''odiff-bin'' = Inr p
      \<and> execSync env (compare_command env p a b diff options) (files w)
          = (ExecThrew e, printed, fs)
      \<and> e_status e = Some (Num 22)
      \<and> (case e_output e of
           None \<Rightarrow> []
         | Some out \<Rightarrow> concat (map (\<lambda>x. case x of None \<Rightarrow> [] | Some s \<Rightarrow> s) out)) = lead @ body @ trail
      \<and> (\<forall>ch \<in> set (lead @ trail). isWhiteSpace ch)
      \<and> (body = [] \<or> (\<not> isWhiteSpace (hd body) \<and> \<not> isWhiteSpace (last body)))
      \<and> body = c @ CHR '';'' # q @ rest
      \<and> CHR '';'' \<notin> set c \<and> CHR '';'' \<notin> set q \<and> (rest = [] \<or> hd rest = CHR '';'')"
  show "compare env a b diff options w =
          (Returned \<lparr>match = False, reason = Some PixelDiff,
                     diffCount = Some (parseInt (round_to_double env) c),
                     diffPercentage =
                       Some (num_div (round_to_double env)
                               (parseFloat (round_to_double env) q) 100)\<rparr>,
           w\<lparr>files := fs,
             stderr := stderr w @ (if printed = [] then [] else [printed])\<rparr>)"
  proof -
    from a have "output_fields e = split CHR '';'' body"
      by (intro output_fields_decomposed [of e lead body trail]) blast+
    moreover from a have "body = c @ CHR '';'' # q @ rest" by blast
    moreover from a obtain more where "split CHR '';'' (c @ CHR '';'' # q @ rest) = c # q # more"
      using split_two_fields [of "CHR '';''" c q rest] by blast
    ultimately have f: "output_fields e = c # q # more" by simp
    from a have "compare env a b diff options w =
        compare_catch env e
          (w\<lparr>files := fs, stderr := stderr w @ (if printed = [] then [] else [printed])\<rparr>)"
      by (intro compare_exec_threw) blast+
    moreover from a have "e_status e = Some (Num 22)" by blast
    ultimately show ?thesis
      using f by (simp add: catch_22)
  qed
next
  assume "require_resolve env ''odiff-bin'' = Inr p
      \<and> execSync env (compare_command env p a b diff options) (files w)
          = (ExecThrew e, printed, fs)
      \<and> e_status e \<noteq> Some (Num 21) \<and> e_status e \<noteq> Some (Num 22)"
  then show "compare env a b diff options w =
          (Threw e,
           w\<lparr>files := fs,
             stderr := stderr w
               @ (if printed = [] then [] else [printed])
               @ [''Error executing odiff image comparison in '' @ [CHR 0x22]
                    @ ''@craft.co/jest-screenshot-odiff'' @ [CHR 0x22]]
               @ (if status_truthy e
                  then [''Exit code: '' @ Number_toString env (the (e_status e))] else [])
               @ (case e_output e of Some out \<Rightarrow> [join (os_EOL env) out] | None \<Rightarrow> [])\<rparr>)"
    by (simp add: compare_exec_threw catch_other)
next
  assume "require_resolve env ''odiff-bin'' = Inl e
      \<and> e_status e \<noteq> Some (Num 21) \<and> e_status e \<noteq> Some (Num 22)"
  then show "compare env a b diff options w =
          (Threw e,
           w\<lparr>stderr := stderr w
               @ [''Error executing odiff image comparison in '' @ [CHR 0x22]
                    @ ''@craft.co/jest-screenshot-odiff'' @ [CHR 0x22]]
               @ (if status_truthy e
                  then [''Exit code: '' @ Number_toString env (the (e_status e))] else [])
               @ (case e_output e of Some out \<Rightarrow> [join (os_EOL env) out] | None \<Rightarrow> [])\<rparr>)"
    by (simp add: compare_resolve_threw catch_other)
qed

theorem compare_four_cases_witness:
  "compare (test_env (ExecReturned [])) ''r.png'' ''s.png'' ''d.png'' test_options
       (test_world ''none'' Map.empty)
     = (Returned \<lparr>match = True, reason = None,
                  diffCount = Some (Num 0), diffPercentage = Some (Num 0)\<rparr>,
        test_world ''none'' Map.empty)
   \<and> compare (test_env (ExecThrew (exit_error 21 [] [])))
       ''r.png'' ''s.png'' ''d.png'' test_options (test_world ''none'' Map.empty)
     = (Returned \<lparr>match = False, reason = Some LayoutDiff,
                  diffCount = Some (Num 0), diffPercentage = Some (Num 0)\<rparr>,
        test_world ''none'' Map.empty)
   \<and> compare (test_env (ExecThrew (exit_error 22 sample_output [])))
       ''r.png'' ''s.png'' ''d.png'' test_options (test_world ''none'' Map.empty)
     = (Returned \<lparr>match = False, reason = Some PixelDiff,
                  diffCount = Some (Num 50), diffPercentage = Some (Num (21 / 200))\<rparr>,
        test_world ''none'' Map.empty)
   \<and> compare (test_env (ExecThrew (exit_error 22 ''50'' ''warning'')))
       ''r.png'' ''s.png'' ''d.png'' test_options (test_world ''none'' Map.empty)
     = (Returned \<lparr>match = False, reason = Some PixelDiff,
                  diffCount = Some (Num 50), diffPercentage = Some (Num 0)\<rparr>,
        (test_world ''none'' Map.empty)\<lparr>stderr := [''warning'']\<rparr>)
   \<and> compare (test_env (ExecThrew (exit_error 1 ''out'' ''err'')))
       ''r.png'' ''s.png'' ''d.png'' test_options (test_world ''none'' Map.empty)
     = (Threw (exit_error 1 ''out'' ''err''),
        (test_world ''none'' Map.empty)
          \<lparr>stderr := [''err'',
                      ''Error executing odiff image comparison in '' @ [CHR 0x22]
                        @ ''@craft.co/jest-screenshot-odiff'' @ [CHR 0x22],
                      ''Exit code: 1'',
                      [CHR 0x0A] @ ''out'' @ [CHR 0x0A] @ ''err'']\<rparr>)"
proof (intro conjI)
  show "compare (test_env (ExecReturned [])) ''r.png'' ''s.png'' ''d.png'' test_options
       (test_world ''none'' Map.empty)
     = (Returned \<lparr>match = True, reason = None,
                  diffCount = Some (Num 0), diffPercentage = Some (Num 0)\<rparr>,
        test_world ''none'' Map.empty)"
    using compare_four_cases [where env = "test_env (ExecReturned [])"
      and p = "''/node_modules/odiff-bin/index.js''"
      and w = "test_world ''none'' Map.empty" and out = "[]" and printed = "[]"
      and fs = Map.empty]
    by (simp add: test_env_simps test_world_def)
next
  show "compare (test_env (ExecThrew (exit_error 21 [] [])))
       ''r.png'' ''s.png'' ''d.png'' test_options (test_world ''none'' Map.empty)
     = (Returned \<lparr>match = False, reason = Some LayoutDiff,
                  diffCount = Some (Num 0), diffPercentage = Some (Num 0)\<rparr>,
        test_world ''none'' Map.empty)"
    using compare_four_cases [where env = "test_env (ExecThrew (exit_error 21 [] []))"
      and p = "''/node_modules/odiff-bin/index.js''"
      and w = "test_world ''none'' Map.empty" and fs = Map.empty and printed = "[]"
      and e = "exit_error 21 [] []"]
    by (simp add: test_env_simps exit_error_simps test_world_def)
next
  show "compare (test_env (ExecThrew (exit_error 22 sample_output [])))
       ''r.png'' ''s.png'' ''d.png'' test_options (test_world ''none'' Map.empty)
     = (Returned \<lparr>match = False, reason = Some PixelDiff,
                  diffCount = Some (Num 50), diffPercentage = Some (Num (21 / 200))\<rparr>,
        test_world ''none'' Map.empty)"
    using compare_four_cases [where
          env = "test_env (ExecThrew (exit_error 22 sample_output []))"
      and p = "''/node_modules/odiff-bin/index.js''"
      and w = "test_world ''none'' Map.empty" and fs = Map.empty and printed = "[]"
      and e = "exit_error 22 sample_output []"
      and lead = "[]" and body = "''50;10.5''" and trail = "[CHR 0x0A]"
      and c = "''50''" and q = "''10.5''" and rest = "[]"]
    by (simp add: test_env_simps exit_error_simps test_world_def parseInt_50 parseFloat_10_5
          sample_output_def isWhiteSpace_def)
next
  show "compare (test_env (ExecThrew (exit_error 22 ''50'' ''warning'')))
       ''r.png'' ''s.png'' ''d.png'' test_options (test_world ''none'' Map.empty)
     = (Returned \<lparr>match = False, reason = Some PixelDiff,
                  diffCount = Some (Num 50), diffPercentage = Some (Num 0)\<rparr>,
        (test_world ''none'' Map.empty)\<lparr>stderr := [''warning'']\<rparr>)"
    using compare_four_cases [where
          env = "test_env (ExecThrew (exit_error 22 ''50'' ''warning''))"
      and p = "''/node_modules/odiff-bin/index.js''"
      and w = "test_world ''none'' Map.empty" and fs = Map.empty and printed = "''warning''"
      and e = "exit_error 22 ''50'' ''warning''"
      and lead = "[]" and body = "''50warning''" and trail = "[]"]
    by (simp add: test_env_simps exit_error_simps test_world_def parseInt_50_warning
          parseFloat_0 isWhiteSpace_def)
next
  show "compare (test_env (ExecThrew (exit_error 1 ''out'' ''err'')))
       ''r.png'' ''s.png'' ''d.png'' test_options (test_world ''none'' Map.empty)
     = (Threw (exit_error 1 ''out'' ''err''),
        (test_world ''none'' Map.empty)
          \<lparr>stderr := [''err'',
                      ''Error executing odiff image comparison in '' @ [CHR 0x22]
                        @ ''@craft.co/jest-screenshot-odiff'' @ [CHR 0x22],
                      ''Exit code: 1'',
                      [CHR 0x0A] @ ''out'' @ [CHR 0x0A] @ ''err'']\<rparr>)"
    using compare_four_cases [where env = "test_env (ExecThrew (exit_error 1 ''out'' ''err''))"
      and p = "''/node_modules/odiff-bin/index.js''"
      and w = "test_world ''none'' Map.empty" and fs = Map.empty and printed = "''err''"
      and e = "exit_error 1 ''out'' ''err''"]
    by (simp add: test_env_simps exit_error_simps test_world_def status_truthy_def)
qed

text \<open>
  Claim C5. Every outcome \<open>compare\<close> returns keeps the invariant of the data model:
  an outcome whose reason is \<open>layout-diff\<close> has \<open>diffCount = 0\<close> and
  \<open>diffPercentage = 0\<close>, and an outcome with \<open>match = true\<close> has no reason.
\<close>

theorem compare_outcome_invariant:
  "compare env a b diff options w = (Returned r, w1) \<Longrightarrow>
   (reason r = Some LayoutDiff \<longrightarrow> diffCount r = Some (Num 0) \<and> diffPercentage r = Some (Num 0))
   \<and> (match r \<longrightarrow> reason r = None)"
  using compare_returned [of env a b diff options w r w1] by auto

theorem compare_outcome_invariant_witness:
  "compare (test_env (ExecThrew (exit_error 21 [] []))) ''r.png'' ''s.png'' ''d.png''
       test_options (test_world ''none'' Map.empty)
     = (Returned \<lparr>match = False, reason = Some LayoutDiff,
                  diffCount = Some (Num 0), diffPercentage = Some (Num 0)\<rparr>,
        test_world ''none'' Map.empty)
   \<and> compare (test_env (ExecReturned [])) ''r.png'' ''s.png'' ''d.png''
       test_options (test_world ''none'' Map.empty)
     = (Returned \<lparr>match = True, reason = None,
                  diffCount = Some (Num 0), diffPercentage = Some (Num 0)\<rparr>,
        test_world ''none'' Map.empty)
   \<and> (reason \<lparr>match = False, reason = Some LayoutDiff,
                  diffCount = Some (Num 0), diffPercentage = Some (Num 0)\<rparr> = Some LayoutDiff
       \<and> diffCount \<lparr>match = False, reason = Some LayoutDiff,
                  diffCount = Some (Num 0), diffPercentage = Some (Num 0)\<rparr> = Some (Num 0))
   \<and> (match \<lparr>match = True, reason = None,
                  diffCount = Some (Num 0), diffPercentage = Some (Num 0)\<rparr>
       \<and> reason \<lparr>match = True, reason = None,
                  diffCount = Some (Num 0), diffPercentage = Some (Num 0)\<rparr> = None)"
  using compare_outcome_invariant [OF test_compare_21 [of "[]" "''r.png''" "''s.png''" "''d.png''" test_options "test_world ''none'' Map.empty"]]
    compare_outcome_invariant [OF test_compare_0 [of "''r.png''" "''s.png''" "''d.png''" test_options "test_world ''none'' Map.empty"]]
    test_compare_21 [of "[]" "''r.png''" "''s.png''" "''d.png''" test_options "test_world ''none'' Map.empty"]
    test_compare_0 [of "''r.png''" "''s.png''" "''d.png''" test_options "test_world ''none'' Map.empty"]
  by simp

text \<open>
  Claim C10. When the engine exits with status 22, \<open>compare\<close> returns a
  \<open>pixel-diff\<close> outcome read from the output of the error: its elements joined,
  the white space at both ends removed, the rest split at \<open>;\<close>. The split always
  has a first field, so \<open>diffCount\<close> is \<open>parseInt\<close> of that field and the default
  \<open>'0'\<close> is never taken. The default of \<open>diffPercentage\<close> is taken exactly when
  the text has no \<open>;\<close>: with a \<open>;\<close>, \<open>diffPercentage\<close> is \<open>parseFloat\<close> of
  what stands between the first \<open>;\<close> and the next one, or the end, divided by 100,
  also when nothing stands there. For an empty output the first field is the empty
  string, and \<open>diffCount\<close> is NaN: it is not a natural number.
\<close>

theorem compare_pixel_diff_fields:
  assumes "require_resolve env ''odiff-bin'' = Inr p"
      and "execSync env (compare_command env p a b diff options) (files w)
             = (ExecThrew e, printed, fs)"
      and "e_status e = Some (Num 22)"
      and "(case e_output e of
                None \<Rightarrow> []
              | Some out \<Rightarrow> concat (map (\<lambda>x. case x of None \<Rightarrow> [] | Some s \<Rightarrow> s) out)) = lead @ body @ trail"
      and "\<forall>ch \<in> set (lead @ trail). isWhiteSpace ch"
      and "body = [] \<or> (\<not> isWhiteSpace (hd body) \<and> \<not> isWhiteSpace (last body))"
  shows "\<exists>r. compare env a b diff options w =
               (Returned r,
                w\<lparr>files := fs,
                  stderr := stderr w @ (if printed = [] then [] else [printed])\<rparr>)
           \<and> match r = False \<and> reason r = Some PixelDiff
           \<and> split CHR '';'' body \<noteq> []
           \<and> diffCount r = Some (parseInt (round_to_double env) (hd (split CHR '';'' body)))
           \<and> (CHR '';'' \<notin> set body \<longrightarrow>
                diffCount r = Some (parseInt (round_to_double env) body)
                \<and> diffPercentage r =
                    Some (num_div (round_to_double env)
                            (parseFloat (round_to_double env) ''0'') 100))
           \<and> (\<forall>c q rest.
                body = c @ CHR '';'' # q @ rest \<and> CHR '';'' \<notin> set c \<and> CHR '';'' \<notin> set q
                \<and> (rest = [] \<or> hd rest = CHR '';'') \<longrightarrow>
                diffCount r = Some (parseInt (round_to_double env) c)
                \<and> diffPercentage r =
                    Some (num_div (round_to_double env)
                            (parseFloat (round_to_double env) q) 100))
           \<and> (body = [] \<longrightarrow>
                diffCount r = Some NaN \<and> (\<forall>n::nat. diffCount r \<noteq> Some (Num (real n))))"
proof -
  let ?rnd = "round_to_double env"
  let ?W = "w\<lparr>files := fs, stderr := stderr w @ (if printed = [] then [] else [printed])\<rparr>"
  define first where "first = (case split CHR '';'' body of [] \<Rightarrow> ''0'' | c # _ \<Rightarrow> c)"
  define second where "second = (case split CHR '';'' body of c # p # _ \<Rightarrow> p | _ \<Rightarrow> ''0'')"
  define r where
    "r = \<lparr>match = False, reason = Some PixelDiff,
          diffCount = Some (parseInt ?rnd first),
          diffPercentage = Some (num_div ?rnd (parseFloat ?rnd second) 100)\<rparr>"
  have f: "output_fields e = split CHR '';'' body"
    using assms(4,5,6) by (rule output_fields_decomposed)
  have ne: "split CHR '';'' body \<noteq> []"
    by (rule split_not_Nil)
  have "compare env a b diff options w = compare_catch env e ?W"
    using assms(1,2) by (rule compare_exec_threw)
  also have "\<dots> = (Returned r, ?W)"
    unfolding catch_22 [OF assms(3)] f r_def first_def second_def ..
  finally have cmp: "compare env a b diff options w = (Returned r, ?W)" .
  have m: "match r = False" and re: "reason r = Some PixelDiff"
    and dc: "diffCount r = Some (parseInt ?rnd first)"
    and dp: "diffPercentage r = Some (num_div ?rnd (parseFloat ?rnd second) 100)"
    by (simp_all add: r_def)
  have hdf: "diffCount r = Some (parseInt ?rnd (hd (split CHR '';'' body)))"
  proof (cases "split CHR '';'' body")
    case Nil
    with ne show ?thesis by simp
  next
    case (Cons x xs)
    then have "first = x" by (simp add: first_def)
    with Cons dc show ?thesis by simp
  qed
  have A: "CHR '';'' \<notin> set body \<longrightarrow>
             diffCount r = Some (parseInt ?rnd body)
             \<and> diffPercentage r = Some (num_div ?rnd (parseFloat ?rnd ''0'') 100)"
  proof
    assume "CHR '';'' \<notin> set body"
    then have "split CHR '';'' body = [body]" by (rule split_no_separator)
    then have "first = body" and "second = ''0''"
      by (simp_all add: first_def second_def)
    with dc dp show "diffCount r = Some (parseInt ?rnd body)
             \<and> diffPercentage r = Some (num_div ?rnd (parseFloat ?rnd ''0'') 100)"
      by simp
  qed
  have B: "\<forall>c q rest.
             body = c @ CHR '';'' # q @ rest \<and> CHR '';'' \<notin> set c \<and> CHR '';'' \<notin> set q
             \<and> (rest = [] \<or> hd rest = CHR '';'') \<longrightarrow>
             diffCount r = Some (parseInt ?rnd c)
             \<and> diffPercentage r = Some (num_div ?rnd (parseFloat ?rnd q) 100)"
  proof (intro allI impI)
    fix c q rest
    assume h: "body = c @ CHR '';'' # q @ rest \<and> CHR '';'' \<notin> set c \<and> CHR '';'' \<notin> set q
             \<and> (rest = [] \<or> hd rest = CHR '';'')"
    then obtain more where "split CHR '';'' (c @ CHR '';'' # q @ rest) = c # q # more"
      using split_two_fields [of "CHR '';''" c q rest] by blast
    moreover from h have "body = c @ CHR '';'' # q @ rest" by blast
    ultimately have "split CHR '';'' body = c # q # more" by simp
    then have "first = c" and "second = q"
      by (simp_all add: first_def second_def)
    with dc dp show "diffCount r = Some (parseInt ?rnd c)
             \<and> diffPercentage r = Some (num_div ?rnd (parseFloat ?rnd q) 100)"
      by simp
  qed
  have C: "body = [] \<longrightarrow>
             diffCount r = Some NaN \<and> (\<forall>n::nat. diffCount r \<noteq> Some (Num (real n)))"
  proof
    assume "body = []"
    then have "first = []" by (simp add: first_def)
    with dc have "diffCount r = Some NaN" by (simp add: parseInt_empty)
    then show "diffCount r = Some NaN \<and> (\<forall>n::nat. diffCount r \<noteq> Some (Num (real n)))"
      by simp
  qed
  show ?thesis
    by (rule exI [of _ r]) (intro conjI cmp m re ne hdf A B C)
qed

theorem compare_pixel_diff_fields_witness:
  "compare (test_env (ExecThrew (exit_error 22 sample_output []))) ''r.png'' ''s.png'' ''d.png''
       test_options (test_world ''none'' Map.empty)
     = (Returned \<lparr>match = False, reason = Some PixelDiff,
                  diffCount = Some (Num 50), diffPercentage = Some (Num (21 / 200))\<rparr>,
        test_world ''none'' Map.empty)
   \<and> compare (test_env (ExecThrew (exit_error 22 ''50'' []))) ''r.png'' ''s.png'' ''d.png''
       test_options (test_world ''none'' Map.empty)
     = (Returned \<lparr>match = False, reason = Some PixelDiff,
                  diffCount = Some (Num 50), diffPercentage = Some (Num 0)\<rparr>,
        test_world ''none'' Map.empty)
   \<and> compare (test_env (ExecThrew (exit_error 22 ''50;'' []))) ''r.png'' ''s.png'' ''d.png''
       test_options (test_world ''none'' Map.empty)
     = (Returned \<lparr>match = False, reason = Some PixelDiff,
                  diffCount = Some (Num 50), diffPercentage = Some NaN\<rparr>,
        test_world ''none'' Map.empty)
   \<and> compare (test_env (ExecThrew (exit_error 22 [] []))) ''r.png'' ''s.png'' ''d.png''
       test_options (test_world ''none'' Map.empty)
     = (Returned \<lparr>match = False, reason = Some PixelDiff,
                  diffCount = Some NaN, diffPercentage = Some (Num 0)\<rparr>,
        test_world ''none'' Map.empty)"
proof -
  have record_eq: "r = \<lparr>match = False, reason = Some PixelDiff, diffCount = dc, diffPercentage = dp\<rparr>"
    if "match r = False" "reason r = Some PixelDiff" "diffCount r = dc" "diffPercentage r = dp"
    for r :: OdiffReturnType and dc dp
    using that by (cases r) simp
  have w: "(test_world ''none'' Map.empty)
             \<lparr>files := Map.empty,
               stderr := stderr (test_world ''none'' Map.empty) @ (if ([] :: string) = [] then [] else [[]])\<rparr>
           = test_world ''none'' Map.empty"
    by (simp add: test_world_def)
  have run: "require_resolve (test_env (ExecThrew (exit_error 22 out []))) ''odiff-bin''
               = Inr ''/node_modules/odiff-bin/index.js''"
       "execSync (test_env (ExecThrew (exit_error 22 out [])))
          (compare_command (test_env (ExecThrew (exit_error 22 out [])))
             ''/node_modules/odiff-bin/index.js'' ''r.png'' ''s.png'' ''d.png'' test_options)
          (files (test_world ''none'' Map.empty))
        = (ExecThrew (exit_error 22 out []), [], Map.empty)"
       "e_status (exit_error 22 out []) = Some (Num 22)"
    for out
    by (simp_all add: test_env_simps exit_error_simps test_world_def)
  have first: "compare (test_env (ExecThrew (exit_error 22 sample_output []))) ''r.png'' ''s.png''
       ''d.png'' test_options (test_world ''none'' Map.empty)
     = (Returned \<lparr>match = False, reason = Some PixelDiff,
                  diffCount = Some (Num 50), diffPercentage = Some (Num (21 / 200))\<rparr>,
        test_world ''none'' Map.empty)"
  proof -
    have raw: "(case e_output (exit_error 22 sample_output []) of
                None \<Rightarrow> []
              | Some out \<Rightarrow> concat (map (\<lambda>x. case x of None \<Rightarrow> [] | Some s \<Rightarrow> s) out)) = [] @ ''50;10.5'' @ [CHR 0x0A]"
      by (simp add: exit_error_simps sample_output_def)
    have ws: "\<forall>ch \<in> set ([] @ [CHR 0x0A]). isWhiteSpace ch"
      by (simp add: isWhiteSpace_def)
    have ends: "''50;10.5'' = [] \<or> (\<not> isWhiteSpace (hd ''50;10.5'') \<and> \<not> isWhiteSpace (last ''50;10.5''))"
      by (simp add: isWhiteSpace_def)
    from compare_pixel_diff_fields [OF run(1,2,3) raw ws ends]
    obtain r where r:
      "compare (test_env (ExecThrew (exit_error 22 sample_output []))) ''r.png'' ''s.png''
         ''d.png'' test_options (test_world ''none'' Map.empty)
       = (Returned r, (test_world ''none'' Map.empty)
            \<lparr>files := Map.empty,
              stderr := stderr (test_world ''none'' Map.empty) @ (if ([] :: string) = [] then [] else [[]])\<rparr>)"
      "match r = False" "reason r = Some PixelDiff"
      "CHR '';'' \<notin> set ''50;10.5'' \<longrightarrow>
         diffCount r = Some (parseInt (round_to_double (test_env (ExecThrew (exit_error 22 sample_output [])))) ''50;10.5'')
         \<and> diffPercentage r =
             Some (num_div (round_to_double (test_env (ExecThrew (exit_error 22 sample_output []))))
                     (parseFloat (round_to_double (test_env (ExecThrew (exit_error 22 sample_output [])))) ''0'') 100)"
      "\<forall>c q rest.
         ''50;10.5'' = c @ CHR '';'' # q @ rest \<and> CHR '';'' \<notin> set c \<and> CHR '';'' \<notin> set q
         \<and> (rest = [] \<or> hd rest = CHR '';'') \<longrightarrow>
         diffCount r = Some (parseInt (round_to_double (test_env (ExecThrew (exit_error 22 sample_output [])))) c)
         \<and> diffPercentage r =
             Some (num_div (round_to_double (test_env (ExecThrew (exit_error 22 sample_output []))))
                     (parseFloat (round_to_double (test_env (ExecThrew (exit_error 22 sample_output [])))) q) 100)"
      "''50;10.5'' = [] \<longrightarrow> diffCount r = Some NaN"
      by blast
    from r(5) [rule_format, of "''50''" "''10.5''" "[]"]
    have "diffCount r = Some (Num 50)" and "diffPercentage r = Some (Num (21 / 200))"
      by (simp_all add: test_env_simps parseInt_50 parseFloat_10_5)
    with r(2,3) r(1) [unfolded w] show ?thesis
      by (simp add: record_eq)
  qed
  have second: "compare (test_env (ExecThrew (exit_error 22 ''50'' []))) ''r.png'' ''s.png''
       ''d.png'' test_options (test_world ''none'' Map.empty)
     = (Returned \<lparr>match = False, reason = Some PixelDiff,
                  diffCount = Some (Num 50), diffPercentage = Some (Num 0)\<rparr>,
        test_world ''none'' Map.empty)"
  proof -
    have raw: "(case e_output (exit_error 22 ''50'' []) of
                None \<Rightarrow> []
              | Some out \<Rightarrow> concat (map (\<lambda>x. case x of None \<Rightarrow> [] | Some s \<Rightarrow> s) out)) = [] @ ''50'' @ []"
      by (simp add: exit_error_simps)
    have ws: "\<forall>ch \<in> set ([] @ []). isWhiteSpace ch"
      by (simp add: isWhiteSpace_def)
    have ends: "''50'' = [] \<or> (\<not> isWhiteSpace (hd ''50'') \<and> \<not> isWhiteSpace (last ''50''))"
      by (simp add: isWhiteSpace_def)
    from compare_pixel_diff_fields [OF run(1,2,3) raw ws ends]
    obtain r where r:
      "compare (test_env (ExecThrew (exit_error 22 ''50'' []))) ''r.png'' ''s.png''
         ''d.png'' test_options (test_world ''none'' Map.empty)
       = (Returned r, (test_world ''none'' Map.empty)
            \<lparr>files := Map.empty,
              stderr := stderr (test_world ''none'' Map.empty) @ (if ([] :: string) = [] then [] else [[]])\<rparr>)"
      "match r = False" "reason r = Some PixelDiff"
      "CHR '';'' \<notin> set ''50'' \<longrightarrow>
         diffCount r = Some (parseInt (round_to_double (test_env (ExecThrew (exit_error 22 ''50'' [])))) ''50'')
         \<and> diffPercentage r =
             Some (num_div (round_to_double (test_env (ExecThrew (exit_error 22 ''50'' []))))
                     (parseFloat (round_to_double (test_env (ExecThrew (exit_error 22 ''50'' [])))) ''0'') 100)"
      "\<forall>c q rest.
         ''50'' = c @ CHR '';'' # q @ rest \<and> CHR '';'' \<notin> set c \<and> CHR '';'' \<notin> set q
         \<and> (rest = [] \<or> hd rest = CHR '';'') \<longrightarrow>
         diffCount r = Some (parseInt (round_to_double (test_env (ExecThrew (exit_error 22 ''50'' [])))) c)
         \<and> diffPercentage r =
             Some (num_div (round_to_double (test_env (ExecThrew (exit_error 22 ''50'' []))))
                     (parseFloat (round_to_double (test_env (ExecThrew (exit_error 22 ''50'' [])))) q) 100)"
      "''50'' = [] \<longrightarrow> diffCount r = Some NaN"
      by blast
    from r(4) have "diffCount r = Some (Num 50)" and "diffPercentage r = Some (Num 0)"
      by (simp_all add: test_env_simps parseInt_50 parseFloat_0)
    with r(2,3) r(1) [unfolded w] show ?thesis
      by (simp add: record_eq)
  qed
  have third: "compare (test_env (ExecThrew (exit_error 22 ''50;'' []))) ''r.png'' ''s.png''
       ''d.png'' test_options (test_world ''none'' Map.empty)
     = (Returned \<lparr>match = False, reason = Some PixelDiff,
                  diffCount = Some (Num 50), diffPercentage = Some NaN\<rparr>,
        test_world ''none'' Map.empty)"
  proof -
    have raw: "(case e_output (exit_error 22 ''50;'' []) of
                None \<Rightarrow> []
              | Some out \<Rightarrow> concat (map (\<lambda>x. case x of None \<Rightarrow> [] | Some s \<Rightarrow> s) out)) = [] @ ''50;'' @ []"
      by (simp add: exit_error_simps)
    have ws: "\<forall>ch \<in> set ([] @ []). isWhiteSpace ch"
      by (simp add: isWhiteSpace_def)
    have ends: "''50;'' = [] \<or> (\<not> isWhiteSpace (hd ''50;'') \<and> \<not> isWhiteSpace (last ''50;''))"
      by (simp add: isWhiteSpace_def)
    from compare_pixel_diff_fields [OF run(1,2,3) raw ws ends]
    obtain r where r:
      "compare (test_env (ExecThrew (exit_error 22 ''50;'' []))) ''r.png'' ''s.png''
         ''d.png'' test_options (test_world ''none'' Map.empty)
       = (Returned r, (test_world ''none'' Map.empty)
            \<lparr>files := Map.empty,
              stderr := stderr (test_world ''none'' Map.empty) @ (if ([] :: string) = [] then [] else [[]])\<rparr>)"
      "match r = False" "reason r = Some PixelDiff"
      "CHR '';'' \<notin> set ''50;'' \<longrightarrow>
         diffCount r = Some (parseInt (round_to_double (test_env (ExecThrew (exit_error 22 ''50;'' [])))) ''50;'')
         \<and> diffPercentage r =
             Some (num_div (round_to_double (test_env (ExecThrew (exit_error 22 ''50;'' []))))
                     (parseFloat (round_to_double (test_env (ExecThrew (exit_error 22 ''50;'' [])))) ''0'') 100)"
      "\<forall>c q rest.
         ''50;'' = c @ CHR '';'' # q @ rest \<and> CHR '';'' \<notin> set c \<and> CHR '';'' \<notin> set q
         \<and> (rest = [] \<or> hd rest = CHR '';'') \<longrightarrow>
         diffCount r = Some (parseInt (round_to_double (test_env (ExecThrew (exit_error 22 ''50;'' [])))) c)
         \<and> diffPercentage r =
             Some (num_div (round_to_double (test_env (ExecThrew (exit_error 22 ''50;'' []))))
                     (parseFloat (round_to_double (test_env (ExecThrew (exit_error 22 ''50;'' [])))) q) 100)"
      "''50;'' = [] \<longrightarrow> diffCount r = Some NaN"
      by blast
    from r(5) [rule_format, of "''50''" "[]" "[]"]
    have "diffCount r = Some (Num 50)" and "diffPercentage r = Some NaN"
      by (simp_all add: test_env_simps parseInt_50 parseFloat_empty)
    with r(2,3) r(1) [unfolded w] show ?thesis
      by (simp add: record_eq)
  qed
  have fourth: "compare (test_env (ExecThrew (exit_error 22 [] []))) ''r.png'' ''s.png''
       ''d.png'' test_options (test_world ''none'' Map.empty)
     = (Returned \<lparr>match = False, reason = Some PixelDiff,
                  diffCount = Some NaN, diffPercentage = Some (Num 0)\<rparr>,
        test_world ''none'' Map.empty)"
  proof -
    have raw: "(case e_output (exit_error 22 [] []) of
                None \<Rightarrow> []
              | Some out \<Rightarrow> concat (map (\<lambda>x. case x of None \<Rightarrow> [] | Some s \<Rightarrow> s) out)) = [] @ [] @ []"
      by (simp add: exit_error_simps)
    have ws: "\<forall>ch \<in> set ([] @ []). isWhiteSpace ch"
      by (simp add: isWhiteSpace_def)
    have ends: "[] = [] \<or> (\<not> isWhiteSpace (hd []) \<and> \<not> isWhiteSpace (last []))"
      by (simp add: isWhiteSpace_def)
    from compare_pixel_diff_fields [OF run(1,2,3) raw ws ends]
    obtain r where r:
      "compare (test_env (ExecThrew (exit_error 22 [] []))) ''r.png'' ''s.png''
         ''d.png'' test_options (test_world ''none'' Map.empty)
       = (Returned r, (test_world ''none'' Map.empty)
            \<lparr>files := Map.empty,
              stderr := stderr (test_world ''none'' Map.empty) @ (if ([] :: string) = [] then [] else [[]])\<rparr>)"
      "match r = False" "reason r = Some PixelDiff"
      "CHR '';'' \<notin> set [] \<longrightarrow>
         diffCount r = Some (parseInt (round_to_double (test_env (ExecThrew (exit_error 22 [] [])))) [])
         \<and> diffPercentage r =
             Some (num_div (round_to_double (test_env (ExecThrew (exit_error 22 [] []))))
                     (parseFloat (round_to_double (test_env (ExecThrew (exit_error 22 [] [])))) ''0'') 100)"
      "\<forall>c q rest.
         [] = c @ CHR '';'' # q @ rest \<and> CHR '';'' \<notin> set c \<and> CHR '';'' \<notin> set q
         \<and> (rest = [] \<or> hd rest = CHR '';'') \<longrightarrow>
         diffCount r = Some (parseInt (round_to_double (test_env (ExecThrew (exit_error 22 [] [])))) c)
         \<and> diffPercentage r =
             Some (num_div (round_to_double (test_env (ExecThrew (exit_error 22 [] []))))
                     (parseFloat (round_to_double (test_env (ExecThrew (exit_error 22 [] [])))) q) 100)"
      "[] = [] \<longrightarrow> diffCount r = Some NaN"
      by blast
    from r(4) have "diffCount r = Some NaN" and "diffPercentage r = Some (Num 0)"
      by (simp_all add: test_env_simps parseInt_empty parseFloat_0)
    with r(2,3) r(1) [unfolded w] show ?thesis
      by (simp add: record_eq)
  qed
  from first second third fourth show ?thesis by simp
qed

section \<open>Properties of the verdict engine\<close>

text \<open>
  Claim C1. The result of \<open>checkImages\<close> follows the policy in this order, with
  strict comparisons: a configured absolute threshold that \<open>diffCount\<close> exceeds
  fails the outcome with the message of the absolute threshold; else a configured
  relative threshold that \<open>diffPercentage\<close> exceeds fails it with the message of
  the relative threshold; else an unmatched outcome with reason \<open>layout-diff\<close>
  fails it with the message of the dimensions; otherwise it passes. \<open>checkImages\<close>
  returns this verdict for the outcome \<open>compare\<close> returned. At the boundary:
  \<open>diffCount = T\<close> does not trigger the absolute rule (and passes when nothing else
  fails it), \<open>diffCount = T + 1\<close> fails, for a finite \<open>T\<close>;
  \<open>diffPercentage = R\<close> does not trigger the relative rule (and passes when nothing
  else fails it), and every \<open>diffPercentage > R\<close> fails.
\<close>

theorem checkImages_precedence:
  "checkImages_verdict env n c r =
     (case policy c r of
        Some AbsoluteThreshold \<Rightarrow>
          \<lparr>pass = False, message = Some (absolute_message env n c r),
           changedRelative = diffPercentage r, changedPixels = diffCount r\<rparr>
      | Some RelativeThreshold \<Rightarrow>
          \<lparr>pass = False, message = Some (relative_message env n c r),
           changedRelative = diffPercentage r, changedPixels = diffCount r\<rparr>
      | Some DimensionMismatch \<Rightarrow>
          \<lparr>pass = False, message = Some (layout_message env n),
           changedRelative = diffPercentage r, changedPixels = diffCount r\<rparr>
      | None \<Rightarrow>
          \<lparr>pass = True, message = None, changedRelative = None, changedPixels = None\<rparr>)
   \<and> (compare env receivedPath snapshotPath diffPath (options_of c) w = (Returned r, w1) \<longrightarrow>
        checkImages env snapshotPath receivedPath diffPath n c w =
          (Returned (checkImages_verdict env n c r), w1))
   \<and> (pixelThresholdAbsolute c = Some t \<and> diffCount r = Some t \<longrightarrow>
        policy c r \<noteq> Some AbsoluteThreshold)
   \<and> (pixelThresholdAbsolute c = Some (Num x) \<and> diffCount r = Some (Num x)
        \<and> pixelThresholdRelative c = None \<and> reason r \<noteq> Some LayoutDiff \<longrightarrow>
        pass (checkImages_verdict env n c r))
   \<and> (pixelThresholdAbsolute c = Some (Num x) \<and> diffCount r = Some (Num (x + 1)) \<longrightarrow>
        policy c r = Some AbsoluteThreshold \<and> \<not> pass (checkImages_verdict env n c r))
   \<and> (pixelThresholdRelative c = Some t \<and> diffPercentage r = Some t \<longrightarrow>
        policy c r \<noteq> Some RelativeThreshold)
   \<and> (pixelThresholdRelative c = Some t \<and> diffPercentage r = Some t
        \<and> pixelThresholdAbsolute c = None \<and> reason r \<noteq> Some LayoutDiff \<longrightarrow>
        pass (checkImages_verdict env n c r))
   \<and> (pixelThresholdRelative c = Some t \<and> num_gt (ToNumber (diffPercentage r)) t \<longrightarrow>
        \<not> pass (checkImages_verdict env n c r))"
proof (intro conjI impI)
  show "checkImages_verdict env n c r =
     (case policy c r of
        Some AbsoluteThreshold \<Rightarrow>
          \<lparr>pass = False, message = Some (absolute_message env n c r),
           changedRelative = diffPercentage r, changedPixels = diffCount r\<rparr>
      | Some RelativeThreshold \<Rightarrow>
          \<lparr>pass = False, message = Some (relative_message env n c r),
           changedRelative = diffPercentage r, changedPixels = diffCount r\<rparr>
      | Some DimensionMismatch \<Rightarrow>
          \<lparr>pass = False, message = Some (layout_message env n),
           changedRelative = diffPercentage r, changedPixels = diffCount r\<rparr>
      | None \<Rightarrow>
          \<lparr>pass = True, message = None, changedRelative = None, changedPixels = None\<rparr>)"
    by (rule verdict_policy)
next
  assume "compare env receivedPath snapshotPath diffPath (options_of c) w = (Returned r, w1)"
  then show "checkImages env snapshotPath receivedPath diffPath n c w =
          (Returned (checkImages_verdict env n c r), w1)"
    by (rule checkImages_returned)
next
  assume "pixelThresholdAbsolute c = Some t \<and> diffCount r = Some t"
  then show "policy c r \<noteq> Some AbsoluteThreshold"
    by (simp add: policy_def num_gt_irrefl)
next
  assume "pixelThresholdAbsolute c = Some (Num x) \<and> diffCount r = Some (Num x)
        \<and> pixelThresholdRelative c = None \<and> reason r \<noteq> Some LayoutDiff"
  then show "pass (checkImages_verdict env n c r)"
    by (simp add: pass_policy policy_def)
next
  assume a: "pixelThresholdAbsolute c = Some (Num x) \<and> diffCount r = Some (Num (x + 1))"
  then show "policy c r = Some AbsoluteThreshold"
    by (simp add: policy_def)
  with a show "\<not> pass (checkImages_verdict env n c r)"
    by (simp add: pass_policy)
next
  assume "pixelThresholdRelative c = Some t \<and> diffPercentage r = Some t"
  then show "policy c r \<noteq> Some RelativeThreshold"
    by (simp add: policy_def num_gt_irrefl)
next
  assume "pixelThresholdRelative c = Some t \<and> diffPercentage r = Some t
        \<and> pixelThresholdAbsolute c = None \<and> reason r \<noteq> Some LayoutDiff"
  then show "pass (checkImages_verdict env n c r)"
    by (simp add: pass_policy policy_def num_gt_irrefl)
next
  assume "pixelThresholdRelative c = Some t \<and> num_gt (ToNumber (diffPercentage r)) t"
  then show "\<not> pass (checkImages_verdict env n c r)"
    by (simp add: pass_policy policy_def)
qed

theorem checkImages_precedence_witness:
  "pass (checkImages_verdict (test_env (ExecReturned [])) 1
           (test_configuration (Some (Num 50)) None) pixel_diff_50) = True
   \<and> pass (checkImages_verdict (test_env (ExecReturned [])) 1
           (test_configuration (Some (Num 49)) None) pixel_diff_50) = False
   \<and> policy (test_configuration (Some (Num 49)) None) pixel_diff_50 = Some AbsoluteThreshold
   \<and> pass (checkImages_verdict (test_env (ExecReturned [])) 1
           (test_configuration None (Some (Num (21 / 200)))) pixel_diff_50) = True
   \<and> pass (checkImages_verdict (test_env (ExecReturned [])) 1
           (test_configuration None (Some (Num (1 / 10)))) pixel_diff_50) = False"
  using
    checkImages_precedence [where env = "test_env (ExecReturned [])" and n = 1
      and c = "test_configuration (Some (Num 50)) None" and r = pixel_diff_50 and x = 50]
    checkImages_precedence [where env = "test_env (ExecReturned [])" and n = 1
      and c = "test_configuration (Some (Num 49)) None" and r = pixel_diff_50 and x = 49]
    checkImages_precedence [where env = "test_env (ExecReturned [])" and n = 1
      and c = "test_configuration None (Some (Num (21 / 200)))" and r = pixel_diff_50
      and t = "Num (21 / 200)"]
    checkImages_precedence [where env = "test_env (ExecReturned [])" and n = 1
      and c = "test_configuration None (Some (Num (1 / 10)))" and r = pixel_diff_50
      and t = "Num (1 / 10)"]
  by (simp add: test_configuration_simps pixel_diff_50_simps policy_def)

text \<open>
  Claim C2, amended. The claim says that an unmatched \<open>pixel-diff\<close> outcome with
  \<open>diffCount > 0\<close> fails when neither threshold is configured. The code fails an
  outcome for its pixels only against a configured threshold, by the two guards
  \<open>typeof ... === "number"\<close>; so such an outcome passes: with neither threshold
  configured, \<open>checkImages\<close> returns \<open>pass = true\<close> for every unmatched
  \<open>pixel-diff\<close> outcome with \<open>diffCount > 0\<close>.
\<close>

theorem pixel_diff_without_thresholds_passes:
  assumes "match r = False" and "reason r = Some PixelDiff"
      and "num_gt (ToNumber (diffCount r)) (Num 0)"
      and "pixelThresholdAbsolute c = None" and "pixelThresholdRelative c = None"
  shows "checkImages_verdict env n c r =
           \<lparr>pass = True, message = None, changedRelative = None, changedPixels = None\<rparr>
       \<and> (compare env receivedPath snapshotPath diffPath (options_of c) w = (Returned r, w1) \<longrightarrow>
            checkImages env snapshotPath receivedPath diffPath n c w =
              (Returned \<lparr>pass = True, message = None,
                         changedRelative = None, changedPixels = None\<rparr>, w1))"
  using assms by (simp add: checkImages_verdict_def checkImages_returned)

theorem pixel_diff_without_thresholds_passes_witness:
  "checkImages_verdict (test_env (ExecReturned [])) 1 (test_configuration None None) pixel_diff_50
     = \<lparr>pass = True, message = None, changedRelative = None, changedPixels = None\<rparr>"
  using pixel_diff_without_thresholds_passes [where r = pixel_diff_50
      and c = "test_configuration None None" and env = "test_env (ExecReturned [])" and n = 1]
  by (simp add: test_configuration_simps pixel_diff_50_simps)

text \<open>
  The claim C2 as stated fails on this run: the engine reports 50 differing pixels,
  no threshold is configured, and \<open>checkImages\<close> returns \<open>pass = true\<close>.
\<close>

theorem pixel_diff_without_thresholds_counterexample:
  "compare (test_env (ExecThrew (exit_error 22 sample_output [])))
      ''r.png'' ''s.png'' ''d.png'' (options_of (test_configuration None None))
      (test_world ''none'' Map.empty)
     = (Returned pixel_diff_50, test_world ''none'' Map.empty)
   \<and> match pixel_diff_50 = False
   \<and> reason pixel_diff_50 = Some PixelDiff
   \<and> num_gt (ToNumber (diffCount pixel_diff_50)) (Num 0)
   \<and> pixelThresholdAbsolute (test_configuration None None) = None
   \<and> pixelThresholdRelative (test_configuration None None) = None
   \<and> checkImages (test_env (ExecThrew (exit_error 22 sample_output [])))
        ''s.png'' ''r.png'' ''d.png'' 1 (test_configuration None None)
        (test_world ''none'' Map.empty)
     = (Returned \<lparr>pass = True, message = None, changedRelative = None, changedPixels = None\<rparr>,
        test_world ''none'' Map.empty)"
  by (simp add: test_checkImages_22 test_compare_22 test_configuration_simps pixel_diff_50_simps
        checkImages_verdict_def)

text \<open>
  Claim C3. An outcome with \<open>diffCount = 0\<close> and reason none passes
  \<open>checkImages\<close> whatever thresholds are configured. The outcomes and the
  thresholds are those of the data model of the specification: \<open>diffPercentage\<close>
  is the share of the differing pixels, so it is \<open>0\<close> with \<open>diffCount\<close>, and a
  configured threshold is a number that is not below \<open>0\<close>. The second part is about
  the outcomes \<open>compare\<close> returns: one with no reason has \<open>diffCount = 0\<close> and
  \<open>diffPercentage = 0\<close>, and \<open>checkImages\<close> returns \<open>pass = true\<close>.
\<close>

theorem no_difference_passes:
  "(diffCount r = Some (Num 0) \<and> diffPercentage r = Some (Num 0) \<and> reason r = None
      \<and> not_negative (pixelThresholdAbsolute c) \<and> not_negative (pixelThresholdRelative c)
    \<longrightarrow> checkImages_verdict env n c r =
          \<lparr>pass = True, message = None, changedRelative = None, changedPixels = None\<rparr>)
   \<and> (compare env receivedPath snapshotPath diffPath (options_of c) w = (Returned r, w1)
      \<and> reason r = None
      \<and> not_negative (pixelThresholdAbsolute c) \<and> not_negative (pixelThresholdRelative c)
    \<longrightarrow> diffCount r = Some (Num 0) \<and> diffPercentage r = Some (Num 0)
        \<and> checkImages env snapshotPath receivedPath diffPath n c w =
            (Returned \<lparr>pass = True, message = None,
                       changedRelative = None, changedPixels = None\<rparr>, w1))"
proof (intro conjI impI)
  assume a: "diffCount r = Some (Num 0) \<and> diffPercentage r = Some (Num 0) \<and> reason r = None
      \<and> not_negative (pixelThresholdAbsolute c) \<and> not_negative (pixelThresholdRelative c)"
  then show "checkImages_verdict env n c r =
          \<lparr>pass = True, message = None, changedRelative = None, changedPixels = None\<rparr>"
    by (cases "pixelThresholdAbsolute c"; cases "pixelThresholdRelative c")
       (simp_all add: checkImages_verdict_def not_negative_def)
next
  assume b: "compare env receivedPath snapshotPath diffPath (options_of c) w = (Returned r, w1)
      \<and> reason r = None
      \<and> not_negative (pixelThresholdAbsolute c) \<and> not_negative (pixelThresholdRelative c)"
  with compare_returned [of env receivedPath snapshotPath diffPath "options_of c" w r w1]
  have r: "r = \<lparr>match = True, reason = None,
                diffCount = Some (Num 0), diffPercentage = Some (Num 0)\<rparr>"
    by auto
  then show "diffCount r = Some (Num 0)" and "diffPercentage r = Some (Num 0)"
    by simp_all
  have "checkImages_verdict env n c r =
          \<lparr>pass = True, message = None, changedRelative = None, changedPixels = None\<rparr>"
    using b r
    by (cases "pixelThresholdAbsolute c"; cases "pixelThresholdRelative c")
       (simp_all add: checkImages_verdict_def not_negative_def)
  with b show "checkImages env snapshotPath receivedPath diffPath n c w =
            (Returned \<lparr>pass = True, message = None,
                       changedRelative = None, changedPixels = None\<rparr>, w1)"
    by (simp add: checkImages_returned)
qed

theorem no_difference_passes_witness:
  "checkImages_verdict (test_env (ExecReturned [])) 1
       (test_configuration (Some (Num 0)) (Some (Num 0))) no_difference
     = \<lparr>pass = True, message = None, changedRelative = None, changedPixels = None\<rparr>
   \<and> checkImages (test_env (ExecReturned [])) ''s.png'' ''r.png'' ''d.png'' 1
       (test_configuration (Some (Num 0)) (Some (Num 0))) (test_world ''none'' Map.empty)
     = (Returned \<lparr>pass = True, message = None, changedRelative = None, changedPixels = None\<rparr>,
        test_world ''none'' Map.empty)"
  using
    no_difference_passes [where r = no_difference
      and c = "test_configuration (Some (Num 0)) (Some (Num 0))"
      and env = "test_env (ExecReturned [])" and n = 1
      and receivedPath = "''r.png''" and snapshotPath = "''s.png''" and diffPath = "''d.png''"
      and w = "test_world ''none'' Map.empty" and ?w1.0 = "test_world ''none'' Map.empty"]
    test_compare_0 [of "''r.png''" "''s.png''" "''d.png''"
      "options_of (test_configuration (Some (Num 0)) (Some (Num 0)))"
      "test_world ''none'' Map.empty"]
  by (simp add: test_configuration_simps no_difference_def not_negative_def)

section \<open>Properties of the matcher\<close>

text \<open>
  Claim C9. A call of \<open>toMatchImageSnapshot\<close> outside a context that
  \<open>isJestTestConfiguration\<close> accepts, or with \<open>isNot = true\<close>, throws: it
  returns no result of the matcher. The failed check comes before everything else: the world
  after the call is the world before it (no counter changed, no file touched), and
  which error is thrown depends on nothing but the two checks.
\<close>

theorem usage_errors_throw:
  "(\<not> isJestTestConfiguration env this \<longrightarrow>
      toMatchImageSnapshot env this received configuration parameters w =
        (Threw (JsError
           ''Jest: Attempted to call `.toMatchImageSnapshot()` outside of Jest context.''
           None None), w))
   \<and> (isJestTestConfiguration env this \<and> isNot this \<longrightarrow>
      toMatchImageSnapshot env this received configuration parameters w =
        (Threw (JsError ''Jest: `.not` cannot be used with `.toMatchImageSnapshot()`.''
           None None), w))
   \<and> (\<not> isJestTestConfiguration env this \<or> isNot this \<longrightarrow>
      (\<exists>e. toMatchImageSnapshot env this received configuration parameters w = (Threw e, w)))"
  by (cases "isJestTestConfiguration env this") (auto simp: matcher_outside matcher_negated)

theorem usage_errors_throw_witness:
  "toMatchImageSnapshot (test_env (ExecReturned [])) (test_this\<lparr>testPath := []\<rparr>) ''PNG''
      (test_configuration None None) \<lparr>path = None\<rparr> (test_world ''all'' Map.empty)
     = (Threw (JsError
           ''Jest: Attempted to call `.toMatchImageSnapshot()` outside of Jest context.''
           None None), test_world ''all'' Map.empty)
   \<and> toMatchImageSnapshot (test_env (ExecReturned [])) (test_this\<lparr>isNot := True\<rparr>) ''PNG''
      (test_configuration None None) \<lparr>path = None\<rparr> (test_world ''all'' Map.empty)
     = (Threw (JsError ''Jest: `.not` cannot be used with `.toMatchImageSnapshot()`.''
           None None), test_world ''all'' Map.empty)"
  using
    usage_errors_throw [where env = "test_env (ExecReturned [])"
      and this = "test_this\<lparr>testPath := []\<rparr>" and received = "''PNG''"
      and configuration = "test_configuration None None" and parameters = "\<lparr>path = None\<rparr>"
      and w = "test_world ''all'' Map.empty"]
    usage_errors_throw [where env = "test_env (ExecReturned [])"
      and this = "test_this\<lparr>isNot := True\<rparr>" and received = "''PNG''"
      and configuration = "test_configuration None None" and parameters = "\<lparr>path = None\<rparr>"
      and w = "test_world ''all'' Map.empty"]
  by (simp add: test_env_def test_this_def)

text \<open>
  Claim C6. A call in a valid context for which no reference exists, where
  \<open>existsSync\<close> looks (after the directory of the snapshot was made). Under the
  update mode \<open>new\<close> or \<open>all\<close> the call returns \<open>pass = true\<close>, the reference
  is a file holding the received bytes and no other file changed, and \<open>added\<close> grew
  by 1. Under any other mode the call returns \<open>pass = false\<close> with a message that
  has \<open>not written\<close> in it (in red), and leaves the world as it was after the
  directory was made: the reference still does not exist, the regular files are
  those of before the call with their contents, so no report was written, and
  \<open>added\<close> and \<open>updated\<close> are unchanged.
\<close>

theorem missing_reference:
  fixes env this received configuration parameters w
  defines "sp \<equiv> snapshotPath_of env this configuration parameters (count_snapshot this w)"
  defines "w2 \<equiv> mkdirp env (path_dirname env sp) (count_snapshot this w)"
  assumes "isJestTestConfiguration env this" and "\<not> isNot this"
      and "\<not> existsSync sp w2"
  shows "(updateSnapshot (snapshotState w) = ''new'' \<or> updateSnapshot (snapshotState w) = ''all''
          \<longrightarrow> (\<exists>w'. toMatchImageSnapshot env this received configuration parameters w =
                      (Returned \<lparr>pass = True, message = None\<rparr>, w')
                 \<and> files w' = (files w2)(sp \<mapsto> File received)
                 \<and> added (snapshotState w') = added (snapshotState w) + 1
                 \<and> updated (snapshotState w') = updated (snapshotState w)
                 \<and> stderr w' = stderr w))
       \<and> (updateSnapshot (snapshotState w) \<noteq> ''new'' \<and> updateSnapshot (snapshotState w) \<noteq> ''all''
          \<longrightarrow> toMatchImageSnapshot env this received configuration parameters w =
                (Returned \<lparr>pass = False, message = Some (not_written_message env)\<rparr>, w2)
              \<and> (\<exists>before after.
                    not_written_message env = before @ chalk_red env ''not written'' @ after)
              \<and> files w2 sp = None
              \<and> (\<forall>p d. files w2 p = Some (File d) \<longleftrightarrow> files w p = Some (File d))
              \<and> added (snapshotState w2) = added (snapshotState w)
              \<and> updated (snapshotState w2) = updated (snapshotState w))"
proof -
  have m: "toMatchImageSnapshot env this received configuration parameters w =
     (if updateSnapshot (snapshotState w) = ''new'' \<or> updateSnapshot (snapshotState w) = ''all''
      then (Returned \<lparr>pass = True, message = None\<rparr>,
            writeFileSync sp received
              (w2\<lparr>snapshotState := (snapshotState w2)
                    \<lparr>added := added (snapshotState w2) + 1\<rparr>\<rparr>))
      else (Returned \<lparr>pass = False, message = Some (not_written_message env)\<rparr>, w2))"
  proof (rule matcher_absent)
    show "sp = snapshotPath_of env this configuration parameters (count_snapshot this w)"
      by (simp add: sp_def)
    show "w2 = mkdirp env (path_dirname env sp) (count_snapshot this w)"
      by (simp add: w2_def)
  qed (use assms in simp_all)
  have s2: "snapshotState w2 = snapshotState (count_snapshot this w)"
       "stderr w2 = stderr w"
    by (simp_all add: w2_def mkdirp_frame count_snapshot_frame)
  have f2: "\<forall>p d. files w2 p = Some (File d) \<longleftrightarrow> files w p = Some (File d)"
    by (simp add: w2_def mkdirp_frame count_snapshot_frame)
  have t: "\<exists>before after.
             not_written_message env = before @ chalk_red env ''not written'' @ after"
    unfolding not_written_message_def by (metis append.assoc)
  have n: "files w2 sp = None"
    using assms(5) by (simp add: existsSync_def)
  show ?thesis
    unfolding m using s2 f2 t n
    by (simp add: writeFileSync_def count_snapshot_frame)
qed

theorem missing_reference_witness:
  "(\<exists>w'. toMatchImageSnapshot (test_env (ExecReturned [])) test_this ''PNG''
           (test_configuration None None) test_parameters (test_world ''new'' Map.empty)
         = (Returned \<lparr>pass = True, message = None\<rparr>, w')
       \<and> files w' ''/snapshots/a.png'' = Some (File ''PNG'')
       \<and> added (snapshotState w') = 1)
   \<and> fst (toMatchImageSnapshot (test_env (ExecReturned [])) test_this ''PNG''
           (test_configuration None None) test_parameters (test_world ''none'' Map.empty))
       = Returned \<lparr>pass = False, message = Some (not_written_message (test_env (ExecReturned [])))\<rparr>
   \<and> files (snd (toMatchImageSnapshot (test_env (ExecReturned [])) test_this ''PNG''
           (test_configuration None None) test_parameters (test_world ''none'' Map.empty)))
         ''/snapshots/a.png'' = None"
proof -
  have absent: "\<not> existsSync
          (snapshotPath_of (test_env (ExecReturned [])) test_this (test_configuration None None)
             test_parameters (count_snapshot test_this (test_world mode Map.empty)))
          (mkdirp (test_env (ExecReturned []))
             (path_dirname (test_env (ExecReturned []))
                (snapshotPath_of (test_env (ExecReturned [])) test_this
                   (test_configuration None None) test_parameters
                   (count_snapshot test_this (test_world mode Map.empty))))
             (count_snapshot test_this (test_world mode Map.empty)))" for mode
    by (simp add: test_snapshotPath existsSync_def test_mkdirp count_snapshot_frame test_world_def)
  show ?thesis
    using
      missing_reference [OF test_context(1,2) absent [of "''new''"], of "''PNG''"]
      missing_reference [OF test_context(1,2) absent [of "''none''"], of "''PNG''"]
    by (auto simp: test_world_def test_snapshotPath)
qed

text \<open>
  Claim C7. A call in a valid context for which the reference exists and
  \<open>checkImages\<close> returns a failing verdict, under the update mode \<open>all\<close>. The
  call returns \<open>pass = true\<close>; the reference holds the received bytes; \<open>updated\<close>
  grew by 1 and \<open>added\<close> did not change; and the files are those the comparison
  left, but for the reference: nothing of a report was written.
\<close>

theorem failing_comparison_updates:
  fixes env this received configuration parameters w
  defines "sp \<equiv> snapshotPath_of env this configuration parameters (count_snapshot this w)"
  defines "w2 \<equiv> mkdirp env (path_dirname env sp) (count_snapshot this w)"
  assumes "isJestTestConfiguration env this" and "\<not> isNot this"
      and "existsSync sp w2"
      and "write_received env received w2 = (tr, td, w4)"
      and "checkImages env sp tr td (next_snapshotNumber this w) configuration w4
             = (Returned res, w5)"
      and "\<not> pass res"
      and "updateSnapshot (snapshotState w) = ''all''"
  shows "\<exists>w'. toMatchImageSnapshot env this received configuration parameters w =
                (Returned \<lparr>pass = True, message = None\<rparr>, w')
           \<and> files w' = (files w5)(sp \<mapsto> File received)
           \<and> updated (snapshotState w') = updated (snapshotState w) + 1
           \<and> added (snapshotState w') = added (snapshotState w)
           \<and> stderr w' = stderr w5"
proof -
  have m: "toMatchImageSnapshot env this received configuration parameters w =
             (Returned \<lparr>pass = True, message = None\<rparr>,
              writeFileSync sp received
                (w5\<lparr>snapshotState := (snapshotState w5)
                      \<lparr>updated := updated (snapshotState w5) + 1\<rparr>\<rparr>))"
  proof -
    have "sp = snapshotPath_of env this configuration parameters (count_snapshot this w)"
      by (simp add: sp_def)
    moreover have "w2 = mkdirp env (path_dirname env sp) (count_snapshot this w)"
      by (simp add: w2_def)
    ultimately show ?thesis
      using matcher_present [OF assms(3,4) _ _ assms(5,6,7)] assms(8,9) by simp
  qed
  have "snapshotState w4 = snapshotState w2"
    using assms(6) by (rule write_received_frame)
  moreover have "snapshotState w5 = snapshotState w4"
    using assms(7) by (rule checkImages_frame)
  ultimately have s5: "snapshotState w5 = snapshotState (count_snapshot this w)"
    by (simp add: w2_def mkdirp_frame count_snapshot_frame)
  show ?thesis
    unfolding m using s5 by (simp add: writeFileSync_def count_snapshot_frame)
qed

theorem failing_comparison_updates_witness:
  "\<exists>w'. toMatchImageSnapshot (test_env (ExecThrew (exit_error 22 sample_output []))) test_this
           ''NEW'' (test_configuration (Some (Num 10)) None) test_parameters
           (reference_world ''all'')
         = (Returned \<lparr>pass = True, message = None\<rparr>, w')
       \<and> files w' ''/snapshots/a.png'' = Some (File ''NEW'')
       \<and> files w' ''/reports/a/info.json'' = None
       \<and> files w' ''/reports/a/received.png'' = None
       \<and> updated (snapshotState w') = 1"
proof -
  let ?env = "test_env (ExecThrew (exit_error 22 sample_output []))"
  let ?c = "test_configuration (Some (Num 10)) None"
  let ?w = "reference_world ''all''"
  let ?sp = "snapshotPath_of ?env test_this ?c test_parameters (count_snapshot test_this ?w)"
  let ?w2 = "mkdirp ?env (path_dirname ?env ?sp) (count_snapshot test_this ?w)"
  have present: "existsSync ?sp ?w2"
    by (simp add: test_snapshotPath existsSync_def test_mkdirp count_snapshot_frame
          reference_world_def test_world_def)
  obtain tr td w4 where wr: "write_received ?env ''NEW'' ?w2 = (tr, td, w4)"
    by (cases "write_received ?env ''NEW'' ?w2") auto
  have f4: "files w4 = (files ?w2)
              (''/tmp/jest-screenshot-odiff-XXXXXX'' \<mapsto> Directory,
               ''/tmp/jest-screenshot-odiff-XXXXXX/received.png'' \<mapsto> File ''NEW'')"
    using wr by (auto simp: test_write_received)
  have ci: "checkImages ?env ?sp tr td (next_snapshotNumber test_this ?w) ?c w4
        = (Returned (checkImages_verdict ?env (next_snapshotNumber test_this ?w) ?c pixel_diff_50), w4)"
    by (rule test_checkImages_22)
  have np: "\<not> pass (checkImages_verdict ?env (next_snapshotNumber test_this ?w) ?c pixel_diff_50)"
    by (simp add: pass_policy policy_def test_configuration_simps pixel_diff_50_simps)
  have mode: "updateSnapshot (snapshotState ?w) = ''all''"
    by (simp add: reference_world_def test_world_def)
  from failing_comparison_updates [OF test_context(1,2) present wr ci np mode]
  show ?thesis
    using f4
    by (auto simp: test_snapshotPath test_mkdirp count_snapshot_frame reference_world_def
          test_world_def)
qed

text \<open>
  Claim C8. A call in a valid context takes as snapshot number the counter stored
  under its test name plus 1, an absent counter counting as 0, and when the call is
  over, however it ends, the counters are those of before with this number stored
  under the test name. So in a run that starts with no counter for a test name, the
  numbers taken under that name are 1, 2, 3, ... in order, one for each call made
  under it, whatever calls under other names come in between.
\<close>

theorem snapshot_numbers_increase:
  "(isJestTestConfiguration env this \<and> \<not> isNot this \<longrightarrow>
      next_snapshotNumber this w =
        (case counters (snapshotState w) (currentTestName this) of None \<Rightarrow> 0 | Some c \<Rightarrow> c) + 1
      \<and> counters (snapshotState
           (snd (toMatchImageSnapshot env this received configuration parameters w)))
         = (counters (snapshotState w))(currentTestName this \<mapsto> next_snapshotNumber this w))
   \<and> (counters (snapshotState w) name = None \<longrightarrow>
      snapshot_numbers env name calls w
        = [1 ..< Suc (length (filter (takes_number env name) calls))]
      \<and> sorted_wrt (<) (snapshot_numbers env name calls w))"
proof (intro conjI impI)
  assume "isJestTestConfiguration env this \<and> \<not> isNot this"
  then show "counters (snapshotState
           (snd (toMatchImageSnapshot env this received configuration parameters w)))
         = (counters (snapshotState w))(currentTestName this \<mapsto> next_snapshotNumber this w)"
    by (simp add: matcher_counters)
next
  show "next_snapshotNumber this w =
        (case counters (snapshotState w) (currentTestName this) of None \<Rightarrow> 0 | Some c \<Rightarrow> c) + 1"
    by (simp add: next_snapshotNumber_def)
next
  assume a: "counters (snapshotState w) name = None"
  then show e: "snapshot_numbers env name calls w
        = [1 ..< Suc (length (filter (takes_number env name) calls))]"
    by (simp add: snapshot_numbers_from del: upt_Suc)
  show "sorted_wrt (<) (snapshot_numbers env name calls w)"
    unfolding e by (rule sorted_wrt_upt)
qed

theorem snapshot_numbers_increase_witness:
  "snapshot_numbers (test_env (ExecReturned [])) ''shows the page''
      [test_call test_this, test_call other_this, test_call test_this, test_call other_this]
      (test_world ''new'' Map.empty) = [1, 2]
   \<and> snapshot_numbers (test_env (ExecReturned [])) ''shows the menu''
      [test_call test_this, test_call other_this, test_call test_this, test_call other_this]
      (test_world ''new'' Map.empty) = [1, 2]
   \<and> counters (snapshotState (snd (toMatchImageSnapshot (test_env (ExecReturned [])) test_this
        ''PNG'' (test_configuration None None) test_parameters (test_world ''new'' Map.empty))))
      = [''shows the page'' \<mapsto> 1]"
  using
    snapshot_numbers_increase [where env = "test_env (ExecReturned [])"
      and name = "''shows the page''" and w = "test_world ''new'' Map.empty"
      and this = test_this and received = "''PNG''"
      and configuration = "test_configuration None None" and parameters = test_parameters
      and calls = "[test_call test_this, test_call other_this, test_call test_this,
                    test_call other_this]"]
    snapshot_numbers_increase [where env = "test_env (ExecReturned [])"
      and name = "''shows the menu''" and w = "test_world ''new'' Map.empty"
      and this = test_this and received = "''PNG''"
      and configuration = "test_configuration None None" and parameters = test_parameters
      and calls = "[test_call test_this, test_call other_this, test_call test_this,
                    test_call other_this]"]
  by (simp add: test_context takes_number_def test_call_def test_world_def
        next_snapshotNumber_def upt_rec)

end
